theory Spec2Isabelle
  imports Complex_Main
begin

section \<open>The tree sketch: procedural trees, smoothing and falling particles\<close>

text \<open>
  A shallow embedding of \<^verbatim>\<open>createSketch\<close> (the p5 sketch of the repository).
  JavaScript numbers are modelled as real numbers: rounding of doubles, NaN and the
  infinities are outside the model, and a statement about every number is a
  statement about every finite value (a NaN mood, once read, stays NaN in the
  smoothed mood and in the bloom factor of the source). The closure variables of the sketch
  (\<^verbatim>\<open>currentMood\<close>, \<^verbatim>\<open>currentWind\<close>, \<^verbatim>\<open>currentSceneMode\<close>, \<^verbatim>\<open>particles\<close>,
  \<^verbatim>\<open>forest\<close>), the canvas size and the state of p5's random stream form one
  record that every operation takes and returns.
\<close>

subsection \<open>The p5 library functions the sketch calls\<close>

text \<open>
  p5 is a library, not code of the repository. Its arithmetic helpers are
  \<^verbatim>\<open>lerp(start, stop, amt) = amt * (stop - start) + start\<close>,
  \<^verbatim>\<open>constrain(n, low, high) = max(min(n, high), low)\<close> and
  \<^verbatim>\<open>map(n, start1, stop1, start2, stop2, withinBounds)\<close>.
\<close>

definition lerp :: "real \<Rightarrow> real \<Rightarrow> real \<Rightarrow> real" where
  "lerp start stop amt = amt * (stop - start) + start"

definition constrain :: "real \<Rightarrow> real \<Rightarrow> real \<Rightarrow> real" where
  "constrain n low high = max (min n high) low"

definition map_range :: "real \<Rightarrow> real \<Rightarrow> real \<Rightarrow> real \<Rightarrow> real \<Rightarrow> real" where
  "map_range n start1 stop1 start2 stop2 =
     (n - start1) / (stop1 - start1) * (stop2 - start2) + start2"

definition map_within :: "real \<Rightarrow> real \<Rightarrow> real \<Rightarrow> real \<Rightarrow> real \<Rightarrow> real" where
  "map_within n start1 stop1 start2 stop2 =
     (let newval = map_range n start1 stop1 start2 stop2
      in if start2 < stop2 then constrain newval start2 stop2
         else constrain newval stop2 start2)"

text \<open>
  The seeded random stream of p5 is a linear congruential generator on a 32-bit
  state: \<^verbatim>\<open>randomSeed(s)\<close> stores \<^verbatim>\<open>s >>> 0\<close>, every draw replaces the state \<open>z\<close>
  by \<^verbatim>\<open>(a * z + c) % m\<close> and returns \<^verbatim>\<open>z / m\<close>. The sketch seeds the stream in
  \<^verbatim>\<open>setup\<close> before any draw, so the unseeded fallback of p5 is never reached.
  The proofs below use two facts only: a draw lies in \<open>[0, 1)\<close>, and seeding
  overwrites the state.
\<close>

definition lcg_m :: nat where "lcg_m = 4294967296"
definition lcg_a :: nat where "lcg_a = 1664525"
definition lcg_c :: nat where "lcg_c = 1013904223"

definition randomSeed :: "int \<Rightarrow> nat" where
  "randomSeed sd = nat (sd mod 4294967296)"

definition lcg :: "nat \<Rightarrow> real \<times> nat" where
  "lcg z = (let z' = (lcg_a * z + lcg_c) mod lcg_m in (real z' / real lcg_m, z'))"

text \<open>\<^verbatim>\<open>random(max)\<close> and \<^verbatim>\<open>random(min, max)\<close>; each returns the draw and the new state.\<close>

definition random1 :: "real \<Rightarrow> nat \<Rightarrow> real \<times> nat" where
  "random1 hi z = (let (r, z') = lcg z in (r * hi, z'))"

definition random2 :: "real \<Rightarrow> real \<Rightarrow> nat \<Rightarrow> real \<times> nat" where
  "random2 lo hi z =
     (let (r, z') = lcg z
      in (if lo > hi then r * (lo - hi) + hi else r * (hi - lo) + lo, z'))"

subsection \<open>Data model\<close>

text \<open>\<^verbatim>\<open>interface Branch\<close>: a node of the baked tree, with its owned children.\<close>

datatype Branch = Branch
  (len: real)
  (thick: real)
  (depth: nat)
  (angleOffset: real)
  (children: "Branch list")
  (noiseThreshold: real)
  (hasFlower: bool)
  (lenMult: real)

text \<open>\<^verbatim>\<open>interface TreeInstance\<close>: a placed tree of the forest.\<close>

record TreeInstance =
  xRatio :: real
  scale :: real
  branch :: Branch
  seed :: int

datatype FlowerStyle = peach | sakura | delonix

datatype ParticleType = leaf | flower

datatype Color = RGBA real real real real

text \<open>
  \<^verbatim>\<open>COL_LEAF_TENDER\<close> and \<^verbatim>\<open>COL_FLOWER_PINK\<close> are two \<^verbatim>\<open>p5.Color\<close> objects, created once
  in \<^verbatim>\<open>p.setup\<close> and shared by reference: a particle holds one of them in its
  \<^verbatim>\<open>color\<close> field. \<^verbatim>\<open>p.color(c)\<close> of a colour object returns that object, so
  \<^verbatim>\<open>c.setAlpha(alpha)\<close> in \<^verbatim>\<open>updateParticles\<close> sets the alpha of the shared object. A
  reference is a constructor of \<open>PaletteColor\<close>; the sketch state holds the current
  alpha of each object, which starts at the value given in \<^verbatim>\<open>p.setup\<close>.
\<close>

datatype PaletteColor = COL_LEAF_TENDER | COL_FLOWER_PINK

fun initialAlpha :: "PaletteColor \<Rightarrow> real" where
  "initialAlpha COL_LEAF_TENDER = 230"
| "initialAlpha COL_FLOWER_PINK = 240"

text \<open>\<^verbatim>\<open>interface Particle\<close>; a \<^verbatim>\<open>p5.Vector\<close> is its pair of x and y.\<close>

record Particle =
  pos :: "real \<times> real"
  vel :: "real \<times> real"
  acc :: "real \<times> real"
  color :: PaletteColor
  psize :: real
  life :: real
  ptype :: ParticleType
  angle :: real
  angleVel :: real
  flip :: real
  flipSpeed :: real
  swayPhase :: real
  swayFreq :: real
  swayAmp :: real

text \<open>
  What the sketch draws is recorded as the sequence of its drawing calls. The
  calls of the shape helpers (\<^verbatim>\<open>drawAttachedFoliage\<close>, \<^verbatim>\<open>drawFlowerShapeWithAlpha\<close>)
  are recorded with their arguments; the geometry they draw is not modelled.
\<close>

datatype DrawOp =
    Clear
  | Push
  | Pop
  | Translate real real
  | Rotate real
  | Scale real real
  | FillRect Color real real
  | Segment real real real
  | AttachedFoliage real bool real FlowerStyle real
  | FlowerWithAlpha FlowerStyle real real
  | LeafEllipse PaletteColor real real

text \<open>The state of one sketch instance.\<close>

record Sketch =
  currentMood :: real
  currentWind :: real
  currentSceneMode :: real
  particles :: "Particle list"
  forest :: "TreeInstance list"
  width :: real
  height :: real
  rng :: nat
  canvas :: "DrawOp list"
  paletteAlpha :: "PaletteColor \<Rightarrow> real"

definition MAX_PARTICLES :: nat where "MAX_PARTICLES = 400"

text \<open>The number of nodes of a tree.\<close>

fun count_nodes :: "Branch \<Rightarrow> nat" where
  "count_nodes (Branch l t d a cs nt hf lm) = Suc (sum_list (map count_nodes cs))"

subsection \<open>Skeleton generator\<close>

text \<open>
  \<^verbatim>\<open>createBranch\<close> inside \<^verbatim>\<open>buildTreeSkeleton\<close>. The three fields of the object
  literal are drawn in source order; the loop \<^verbatim>\<open>for (i = 0; i < 2; i++)\<close> is
  written out for \<open>i = 0\<close> and \<open>i = 1\<close>: the child is built first (consuming the
  stream), then its angle perturbation is drawn. The stream state is threaded
  through every call.
\<close>

definition childAngle :: "real \<Rightarrow> real \<Rightarrow> real" where
  "childAngle i r = map_range i 0 (2 - 1) (- (pi / 5)) (pi / 5) + r"

definition attachChild :: "Branch \<Rightarrow> real \<Rightarrow> Branch" where
  "attachChild child ang =
     Branch (len child) 0 (depth child) ang (children child)
       (noiseThreshold child) (hasFlower child) (lenMult child)"

function createBranch :: "nat \<Rightarrow> nat \<Rightarrow> nat \<Rightarrow> Branch \<times> nat" where
  "createBranch maxDepth d z =
     (let (nt, z1) = random2 0.05 0.95 z;
          (hf, z2) = random1 1 z1;
          (lm, z3) = random2 (- 0.08) 0.08 z2
      in if d < maxDepth then
           (let (c0, z4) = createBranch maxDepth (d + 1) z3;
                (r0, z5) = random2 (- 0.15) 0.15 z4;
                (c1, z6) = createBranch maxDepth (d + 1) z5;
                (r1, z7) = random2 (- 0.15) 0.15 z6
            in (Branch 0 0 d 0
                  [attachChild c0 (childAngle 0 r0), attachChild c1 (childAngle 1 r1)]
                  nt (hf > 0.25) (0.72 + lm), z7))
         else (Branch 0 0 d 0 [] nt (hf > 0.25) (0.72 + lm), z3))"
  by pat_completeness auto
termination
  by (relation "measure (\<lambda>(maxDepth, d, z). maxDepth - d)") auto

text \<open>
  \<^verbatim>\<open>buildTreeSkeleton\<close>: reseeds the stream, reads the canvas size for the trunk,
  builds the tree from depth 0 and sets the root's length and thickness.
\<close>

definition setTrunk :: "Branch \<Rightarrow> real \<Rightarrow> real \<Rightarrow> Branch" where
  "setTrunk rt trunkLen trunkThick =
     Branch trunkLen trunkThick (depth rt) (angleOffset rt) (children rt)
       (noiseThreshold rt) (hasFlower rt) (lenMult rt)"

definition buildTreeSkeleton :: "nat \<Rightarrow> int \<Rightarrow> Sketch \<Rightarrow> Branch \<times> Sketch" where
  "buildTreeSkeleton maxDepth sd st =
     (let z0 = randomSeed sd;
          isMobile = width st < 600;
          trunkLenRatio = (if isMobile then 0.22 else 0.26);
          trunkLen = height st * trunkLenRatio;
          trunkThick = (if width st < 600 then 18 else 28);
          (rt, z) = createBranch maxDepth 0 z0
      in (setTrunk rt trunkLen trunkThick, st\<lparr>rng := z\<rparr>))"

subsection \<open>Forest manager\<close>

text \<open>
  The loop of the forest branch of \<^verbatim>\<open>rebuildForest\<close>:
  \<^verbatim>\<open>for (let i = 0; i < count; i++)\<close> with \<^verbatim>\<open>count = 10\<close>.
\<close>

function forestLoop :: "nat \<Rightarrow> Sketch \<Rightarrow> Sketch" where
  "forestLoop i st =
     (if i < 10 then
        (let t = real i / (10 - 1);
             x = 0.05 + t * 0.9;
             sd = 5555 + int i * 937;
             (sc, z) = random2 0.30 0.42 (randomSeed sd);
             (b, st') = buildTreeSkeleton 7 sd (st\<lparr>rng := z\<rparr>)
         in forestLoop (i + 1)
              (st'\<lparr>forest := forest st' @ [\<lparr>xRatio = x, scale = sc, branch = b, seed = sd\<rparr>]\<rparr>))
      else st)"
  by pat_completeness auto
termination
  by (relation "measure (\<lambda>(i, st). 10 - i)") auto

text \<open>\<^verbatim>\<open>rebuildForest\<close>, with the value read from \<^verbatim>\<open>getSceneMode()\<close> as its argument.\<close>

definition rebuildForest :: "real \<Rightarrow> Sketch \<Rightarrow> Sketch" where
  "rebuildForest mode st =
     (let st0 = st\<lparr>currentSceneMode := mode, forest := []\<rparr>
      in if mode = 1 then
           (let (b, st1) = buildTreeSkeleton 9 1234 st0
            in st1\<lparr>forest := forest st1 @ [\<lparr>xRatio = 0.5, scale = 1.0, branch = b, seed = 1234\<rparr>]\<rparr>)
         else if mode = 2 then
           (let (b1, st1) = buildTreeSkeleton 8 2222 st0;
                st2 = st1\<lparr>forest := forest st1 @ [\<lparr>xRatio = 0.3, scale = 0.75, branch = b1, seed = 2222\<rparr>]\<rparr>;
                (b2, st3) = buildTreeSkeleton 8 3333 st2
            in st3\<lparr>forest := forest st3 @ [\<lparr>xRatio = 0.7, scale = 0.75, branch = b2, seed = 3333\<rparr>]\<rparr>)
         else forestLoop 0 st0)"

text \<open>\<^verbatim>\<open>p.setup\<close>: size the canvas, create the palette, then rebuild.\<close>

definition p_setup :: "real \<Rightarrow> real \<Rightarrow> real \<Rightarrow> Sketch" where
  "p_setup windowWidth windowHeight mode =
     rebuildForest mode
       \<lparr>currentMood = 0, currentWind = 0, currentSceneMode = 0, particles = [], forest = [],
        width = windowWidth, height = windowHeight, rng = 0, canvas = [], paletteAlpha = initialAlpha\<rparr>"

subsection \<open>What a tick reads from its host\<close>

text \<open>
  The accessors \<^verbatim>\<open>getSceneMode\<close>, \<^verbatim>\<open>getTreeState\<close> and \<^verbatim>\<open>getFlowerStyle\<close>, the clock
  \<^verbatim>\<open>p.millis()\<close>, the frame counter \<^verbatim>\<open>p.frameCount\<close> and p5's noise field
  \<^verbatim>\<open>p.noise\<close> are inputs of a tick; \<^verbatim>\<open>noise(x)\<close> is \<^verbatim>\<open>noise(x, 0, 0)\<close>. The clock
  is read as one value for the whole tick.
\<close>

record Tick =
  sceneMode :: real
  mood :: real
  windForce :: real
  flowerStyle :: FlowerStyle
  millis :: real
  frameCount :: real
  noise :: "real \<Rightarrow> real \<Rightarrow> real \<Rightarrow> real"

definition emit :: "DrawOp list \<Rightarrow> Sketch \<Rightarrow> Sketch" where
  "emit ops st = st\<lparr>canvas := canvas st @ ops\<rparr>"

text \<open>JavaScript's \<^verbatim>\<open>x % 1.0\<close>: the fractional part with the sign of \<open>x\<close>.\<close>

definition fmod1 :: "real \<Rightarrow> real" where
  "fmod1 x = (if 0 \<le> x then frac x else - frac (- x))"

subsection \<open>Particle system\<close>

text \<open>
  \<^verbatim>\<open>spawnFallingParticle\<close>: the guard returns before any draw from the stream;
  otherwise the draws happen in source order and the particle is pushed at the
  end of the collection.
\<close>

definition spawnFallingParticle :: "real \<Rightarrow> real \<Rightarrow> real \<Rightarrow> Sketch \<Rightarrow> Sketch" where
  "spawnFallingParticle x y sc st =
     (if x < - 50 \<or> x > width st + 50 \<or> y > height st then st
      else
        (let (r1, z1) = random2 (- 0.5) 0.5 (rng st);
             vx = r1 + currentWind st * 2.5;
             (vy, z2) = random2 1.5 3.5 z1;
             (r3, z3) = random1 1 z2;
             isFlower = (r3 > 0.5);
             (baseSize, z4) = random2 7 12 z3;
             (a, z5) = random1 (2 * pi) z4;
             (av, z6) = random2 (- 0.15) 0.15 z5;
             (fl, z7) = random1 (2 * pi) z6;
             (fs, z8) = random2 0.05 0.2 z7;
             (sp, z9) = random1 (2 * pi) z8;
             (sf, z10) = random2 0.05 0.1 z9;
             (sa, z11) = random2 0.02 0.05 z10
         in st\<lparr>particles := particles st @
                 [\<lparr>pos = (x, y), vel = (vx, vy), acc = (0, 0),
                   color = (if isFlower then COL_FLOWER_PINK else COL_LEAF_TENDER),
                   psize = baseSize * sc, life = 255,
                   ptype = (if isFlower then flower else leaf),
                   angle = a, angleVel = av, flip = fl, flipSpeed = fs,
                   swayPhase = sp, swayFreq = sf, swayAmp = sa\<rparr>],
               rng := z11\<rparr>))"

text \<open>
  The body of the loop of \<^verbatim>\<open>updateParticles\<close> up to the removal test: the physics
  of one particle for one tick.
\<close>

definition integrate :: "Tick \<Rightarrow> real \<Rightarrow> Particle \<Rightarrow> Particle" where
  "integrate tk wforce part =
     (let turbulence = noise tk (fst (pos part) * 0.01) (snd (pos part) * 0.01)
                         (frameCount tk * 0.02) - 0.5;
          windEffect = wforce * 0.25;
          swayForce = sin (frameCount tk * swayFreq part + swayPhase part) * swayAmp part;
          ac = (0 + (windEffect + turbulence * 0.15) + swayForce, 0.1);
          ve = ((fst (vel part) + fst ac) * 0.94, (snd (vel part) + snd ac) * 0.94);
          po = (fst (pos part) + fst ve, snd (pos part) + snd ve)
      in part\<lparr>pos := po, vel := ve, acc := ac,
               life := life part - 2,
               angle := angle part + angleVel part,
               flip := flip part + flipSpeed part\<rparr>)"

text \<open>The removal test \<^verbatim>\<open>part.life <= 0 || part.pos.y > p.height + 100\<close>.\<close>

definition expired :: "Sketch \<Rightarrow> Particle \<Rightarrow> bool" where
  "expired st part \<longleftrightarrow> life part \<le> 0 \<or> snd (pos part) > height st + 100"

text \<open>
  The drawing of a particle that stays. For a leaf, \<^verbatim>\<open>c.setAlpha(alpha)\<close> acts on the
  shared colour object the particle refers to.
\<close>

definition drawParticle :: "FlowerStyle \<Rightarrow> Particle \<Rightarrow> Sketch \<Rightarrow> Sketch" where
  "drawParticle currentStyle part st =
     (let st1 = emit [Push, Translate (fst (pos part)) (snd (pos part)), Rotate (angle part),
                      Scale 1 (max 0.1 \<bar>cos (flip part)\<bar>)] st;
          st2 = (if ptype part = flower
                 then emit [FlowerWithAlpha currentStyle (psize part) (life part)] st1
                 else emit [LeafEllipse (color part) (psize part) (life part)]
                        (st1\<lparr>paletteAlpha := (paletteAlpha st1)(color part := life part)\<rparr>))
      in emit [Pop] st2)"

text \<open>
  The loop \<^verbatim>\<open>for (let i = particles.length - 1; i >= 0; i--)\<close>. The first argument
  is \<open>i + 1\<close>: \<open>Suc i\<close> visits index \<open>i\<close>, \<open>0\<close> ends the loop.
  \<^verbatim>\<open>particles.splice(i, 1)\<close> removes the element at index \<open>i\<close>.
\<close>

fun particleLoop :: "Tick \<Rightarrow> real \<Rightarrow> FlowerStyle \<Rightarrow> nat \<Rightarrow> Sketch \<Rightarrow> Sketch" where
  "particleLoop tk wforce currentStyle 0 st = st"
| "particleLoop tk wforce currentStyle (Suc i) st =
     (let part = integrate tk wforce (particles st ! i)
      in if expired st part
         then particleLoop tk wforce currentStyle i
                (st\<lparr>particles := take i (particles st) @ drop (Suc i) (particles st)\<rparr>)
         else particleLoop tk wforce currentStyle i
                (drawParticle currentStyle part
                   (st\<lparr>particles := (particles st)[i := part]\<rparr>)))"

text \<open>
  \<^verbatim>\<open>updateParticles\<close>: \<^verbatim>\<open>particles.splice(0, particles.length - MAX_PARTICLES)\<close>
  removes the first elements, then the loop runs from the last index down.
\<close>

definition updateParticles :: "Tick \<Rightarrow> real \<Rightarrow> FlowerStyle \<Rightarrow> Sketch \<Rightarrow> Sketch" where
  "updateParticles tk wforce currentStyle st =
     (let st1 = (if length (particles st) > MAX_PARTICLES
                 then st\<lparr>particles := drop (length (particles st) - MAX_PARTICLES) (particles st)\<rparr>
                 else st)
      in particleLoop tk wforce currentStyle (length (particles st1)) st1)"

subsection \<open>Renderer\<close>

text \<open>\<^verbatim>\<open>maxDepth\<close> as \<^verbatim>\<open>renderBranch\<close> computes it from \<^verbatim>\<open>currentSceneMode\<close>.\<close>

definition renderMaxDepth :: "Sketch \<Rightarrow> real" where
  "renderMaxDepth st =
     (if currentSceneMode st = 3 then 7 else (if currentSceneMode st = 2 then 8 else 9))"

text \<open>\<^verbatim>\<open>const bloomFactor = p.map(currentMood, 0, 1, 0, 1, true)\<close>, on finite values.\<close>

definition bloomFactor :: "Sketch \<Rightarrow> real" where
  "bloomFactor st = map_within (currentMood st) 0 1 0 1"

text \<open>\<^verbatim>\<open>const flexibility = p.map(branch.depth, 0, maxDepth, 0.05, 1.3)\<close>.\<close>

definition flexibility :: "real \<Rightarrow> nat \<Rightarrow> real" where
  "flexibility maxDepth d = map_range (real d) 0 maxDepth 0.05 1.3"

text \<open>
  The part of \<^verbatim>\<open>renderBranch\<close> before the recursion: the segment, and for a branch
  with \<^verbatim>\<open>branch.depth > maxDepth - 4\<close> the foliage decision and the spawn request.
\<close>

definition renderNode ::
  "Tick \<Rightarrow> nat \<Rightarrow> real \<Rightarrow> bool \<Rightarrow> real \<Rightarrow> real \<Rightarrow> real \<Rightarrow> real \<Rightarrow> real \<Rightarrow>
   FlowerStyle \<Rightarrow> real \<Rightarrow> Sketch \<Rightarrow> Sketch" where
  "renderNode tk d nt hf blen bthick windAngle tipX tipY style sc st =
     (let st1 = emit [Segment bthick blen (bloomFactor st), Translate 0 (- blen)] st
      in if real d > renderMaxDepth st - 4 then
           (let isAttached = (bloomFactor st > nt);
                st2 = (if isAttached
                       then emit [AttachedFoliage windAngle hf (bloomFactor st) style sc] st1
                       else st1);
                spawnNoise = noise tk (tipX * 0.1) (tipY * 0.1) (millis tk * 0.008);
                spawnChance = (if currentSceneMode st = 3 then 0.002 else 0.02)
            in if bloomFactor st > 0.3 \<and> fmod1 (spawnNoise * 100) < spawnChance
               then spawnFallingParticle tipX tipY sc st2
               else st2)
         else st1)"

text \<open>
  \<^verbatim>\<open>renderBranch\<close> and its loop over \<^verbatim>\<open>branch.children\<close>. The loop receives the
  values the body of \<^verbatim>\<open>renderBranch\<close> has computed: the parent's length and
  thickness, \<^verbatim>\<open>localWind\<close>, the tip and the cumulative angle.
\<close>

fun renderBranch ::
  "Tick \<Rightarrow> Branch \<Rightarrow> real \<Rightarrow> real \<Rightarrow> real \<Rightarrow> real \<Rightarrow> real \<Rightarrow> real \<Rightarrow>
   FlowerStyle \<Rightarrow> real \<Rightarrow> Sketch \<Rightarrow> Sketch"
and renderChildren ::
  "Tick \<Rightarrow> Branch list \<Rightarrow> real \<Rightarrow> real \<Rightarrow> real \<Rightarrow> real \<Rightarrow> real \<Rightarrow> real \<Rightarrow> real \<Rightarrow>
   FlowerStyle \<Rightarrow> real \<Rightarrow> Sketch \<Rightarrow> Sketch" where
  "renderBranch tk (Branch l t d a cs nt hf lm) blen bthick windAngle x y cumAngle style sc st =
     (let tipX = x + sin cumAngle * blen;
          tipY = y - cos cumAngle * blen;
          st1 = renderNode tk d nt hf blen bthick windAngle tipX tipY style sc st
      in if real d \<ge> renderMaxDepth st \<or> blen < 4 then st1
         else renderChildren tk cs blen bthick windAngle
                (windAngle * flexibility (renderMaxDepth st) d) tipX tipY cumAngle style sc st1)"
| "renderChildren tk [] blen bthick windAngle localWind tipX tipY cumAngle style sc st = st"
| "renderChildren tk (child # rest) blen bthick windAngle localWind tipX tipY cumAngle style sc st =
     (let nextAngle = angleOffset child + localWind;
          st1 = emit [Push, Rotate nextAngle] st;
          st2 = renderBranch tk child (blen * lenMult child) (bthick * 0.7) windAngle tipX tipY
                  (cumAngle + nextAngle) style sc st1
      in renderChildren tk rest blen bthick windAngle localWind tipX tipY cumAngle style sc
           (emit [Pop] st2))"

text \<open>The loop \<^verbatim>\<open>for (const tree of forest)\<close> of \<^verbatim>\<open>p.draw\<close>.\<close>

fun drawForest :: "Tick \<Rightarrow> real \<Rightarrow> TreeInstance list \<Rightarrow> Sketch \<Rightarrow> Sketch" where
  "drawForest tk totalWindAngle [] st = st"
| "drawForest tk totalWindAngle (tree # rest) st =
     (let startX = width st * xRatio tree;
          startY = height st;
          st1 = emit [Push, Translate startX startY] st;
          st2 = renderBranch tk (branch tree) (len (branch tree) * scale tree)
                  (thick (branch tree) * scale tree) totalWindAngle startX startY 0
                  (flowerStyle tk) (scale tree) st1
      in drawForest tk totalWindAngle rest (emit [Pop] st2))"

subsection \<open>Signal smoother and the tick\<close>

text \<open>The mood and wind smoothing of \<^verbatim>\<open>p.draw\<close>.\<close>

definition smooth :: "Tick \<Rightarrow> Sketch \<Rightarrow> Sketch" where
  "smooth tk st =
     st\<lparr>currentMood :=
          (if mood tk \<ge> currentMood st then lerp (currentMood st) (mood tk) 0.1
           else lerp (currentMood st) (mood tk) 0.03),
        currentWind := lerp (currentWind st) (windForce tk) 0.12\<rparr>"

definition totalWindAngle :: "Tick \<Rightarrow> Sketch \<Rightarrow> real" where
  "totalWindAngle tk st =
     (let time = millis tk * 0.001;
          noiseSway = map_range (noise tk (time * 0.6) 0 0) 0 1 (- 0.04) 0.04;
          windSign = (if currentWind st < 0 then - 1 else 1);
          effectiveWind = windSign * (\<bar>currentWind st\<bar> powr 1.4);
          activeSway = sin (time * 2.5) * (effectiveWind * 0.1) + effectiveWind * 0.3
      in noiseSway + activeSway)"

text \<open>
  \<^verbatim>\<open>p.draw\<close>: rebuild on a mode change, smooth, clear and tint the canvas, draw the
  forest, update the particles. \<^verbatim>\<open>rebuildForest\<close> reads \<^verbatim>\<open>getSceneMode()\<close> again; the
  accessor returns the same value within a tick. \<^verbatim>\<open>p.clear()\<close> starts the drawing of
  the tick afresh.
\<close>

definition draw :: "Tick \<Rightarrow> Sketch \<Rightarrow> Sketch" where
  "draw tk st =
     (let st1 = (if sceneMode tk \<noteq> currentSceneMode st then rebuildForest (sceneMode tk) st else st);
          st2 = smooth tk st1;
          st3 = st2\<lparr>canvas :=
                  [Clear, Push,
                   FillRect (if currentMood st2 > 0 then RGBA 255 230 200 (currentMood st2 * 20)
                             else RGBA 5 5 15 (\<bar>currentMood st2\<bar> * 180))
                     (width st2) (height st2),
                   Pop]\<rparr>;
          st4 = drawForest tk (totalWindAngle tk st3) (forest st3) st3
      in updateParticles tk (currentWind st4) (flowerStyle tk) st4)"

text \<open>
  \<^verbatim>\<open>p.windowResized\<close>: \<^verbatim>\<open>p.resizeCanvas\<close> sizes the canvas and redraws, which runs
  \<^verbatim>\<open>p.draw\<close> once; then the forest is rebuilt.
\<close>

definition windowResized :: "real \<Rightarrow> real \<Rightarrow> Tick \<Rightarrow> Sketch \<Rightarrow> Sketch" where
  "windowResized windowWidth windowHeight tk st =
     rebuildForest (sceneMode tk) (draw tk (st\<lparr>width := windowWidth, height := windowHeight\<rparr>))"

subsection \<open>Auxiliary definitions\<close>

text \<open>
  The part of the state that neither rendering nor the particle system changes.
\<close>

definition frame :: "Sketch \<Rightarrow> real \<times> real \<times> real \<times> real \<times> real \<times> TreeInstance list" where
  "frame s = (currentMood s, currentWind s, currentSceneMode s, width s, height s, forest s)"

text \<open>
  The tree instance the forest loop pushes at index \<open>i\<close> on a canvas of width \<open>w\<close>
  and height \<open>h\<close>, written without the state threading.
\<close>

definition mkTree :: "real \<Rightarrow> real \<Rightarrow> nat \<Rightarrow> TreeInstance" where
  "mkTree w h i =
     \<lparr>xRatio = 0.05 + real i / (10 - 1) * 0.9,
      scale = fst (random2 0.30 0.42 (randomSeed (5555 + int i * 937))),
      branch = setTrunk (fst (createBranch 7 0 (randomSeed (5555 + int i * 937))))
                 (h * (if w < 600 then 0.22 else 0.26)) (if w < 600 then 18 else 28),
      seed = 5555 + int i * 937\<rparr>"


text \<open>
  Foliage in the drawing: an operation is foliage when it records a call of
  \<^verbatim>\<open>drawAttachedFoliage\<close>. \<open>attachedBranches\<close> counts, without any state, the branches
  of a tree that the recursion of \<^verbatim>\<open>renderBranch\<close> reaches and that pass the foliage
  test, for a depth limit \<open>M\<close>, a bloom factor \<open>bf\<close> and a rendered length.
\<close>

fun isFoliage :: "DrawOp \<Rightarrow> bool" where
  "isFoliage (AttachedFoliage w hf bf sty sc) = True"
| "isFoliage other = False"

definition foliageCount :: "DrawOp list \<Rightarrow> nat" where
  "foliageCount ops = length (filter isFoliage ops)"

fun attachedBranches :: "real \<Rightarrow> real \<Rightarrow> Branch \<Rightarrow> real \<Rightarrow> nat" where
  "attachedBranches M bf (Branch l t d a cs nt hf lm) blen =
     (if real d > M - 4 \<and> bf > nt then 1 else 0) +
     (if real d \<ge> M \<or> blen < 4 then 0
      else sum_list (map (\<lambda>c. attachedBranches M bf c (blen * lenMult c)) cs))"


text \<open>
  The branches of a tree that the recursion of \<^verbatim>\<open>renderBranch\<close> reaches, in the
  order it reaches them, for a depth limit \<open>M\<close> and a rendered length: the branch
  itself and, unless \<^verbatim>\<open>branch.depth >= maxDepth || len < 4\<close> returns first, what is
  reached from each child at the length \<^verbatim>\<open>len * child.lenMult\<close>. \<open>foliageOf\<close> lists the
  foliage calls of the branches of a list that pass the foliage test.
\<close>

fun reached :: "real \<Rightarrow> Branch \<Rightarrow> real \<Rightarrow> Branch list" where
  "reached M (Branch l t d a cs nt hf lm) blen =
     Branch l t d a cs nt hf lm #
       (if real d \<ge> M \<or> blen < 4 then []
        else concat (map (\<lambda>c. reached M c (blen * lenMult c)) cs))"

definition foliageOf :: "real \<Rightarrow> real \<Rightarrow> real \<Rightarrow> FlowerStyle \<Rightarrow> real \<Rightarrow> Branch list \<Rightarrow> DrawOp list" where
  "foliageOf M bf w sty sc bs =
     map (\<lambda>c. AttachedFoliage w (hasFlower c) bf sty sc)
       (filter (\<lambda>c. real (depth c) > M - 4 \<and> bf > noiseThreshold c) bs)"

text \<open>
  The bloom values in a drawing: the bloom factor a segment was coloured with,
  and the one a foliage call was given.
\<close>

fun bloomOf :: "DrawOp \<Rightarrow> real list" where
  "bloomOf (Segment bthick blen bf) = [bf]"
| "bloomOf (AttachedFoliage w hf bf sty sc) = [bf]"
| "bloomOf other = []"

definition bloomsDrawn :: "DrawOp list \<Rightarrow> real list" where
  "bloomsDrawn ops = concat (map bloomOf ops)"


text \<open>A sketch state on an 800 by 600 canvas, for concrete instances.\<close>

definition sketch0 :: Sketch where
  "sketch0 = \<lparr>currentMood = 0, currentWind = 0, currentSceneMode = 1, particles = [], forest = [],
     width = 800, height = 600, rng = 0, canvas = [], paletteAlpha = initialAlpha\<rparr>"

text \<open>The inputs of a tick in single-tree mode with neutral signals, for concrete instances.\<close>

definition tick0 :: Tick where
  "tick0 = \<lparr>sceneMode = 1, mood = 0, windForce = 0, flowerStyle = peach, millis = 0,
     frameCount = 0, noise = (\<lambda>x y z. 1 / 2)\<rparr>"

text \<open>A leaf particle at rest in the middle of the canvas, for concrete instances.\<close>

definition particle0 :: Particle where
  "particle0 = \<lparr>pos = (400, 300), vel = (0, 0), acc = (0, 0), color = COL_LEAF_TENDER,
     psize = 8, life = 255, ptype = leaf, angle = 0, angleVel = 0, flip = 0, flipSpeed = 0,
     swayPhase = 0, swayFreq = 0, swayAmp = 0\<rparr>"

text \<open>
  A twig at depth 9, and a trunk with two children, for concrete instances.
\<close>

definition twig0 :: Branch where
  "twig0 = Branch 0 0 9 0 [] 0.5 True 0.72"

definition fork0 :: Branch where
  "fork0 = Branch 100 10 0 0
     [Branch 0 0 1 (- 0.6) [] 0.5 True 0.7, Branch 0 0 1 0.6 [] 0.4 False 0.75] 0.5 True 0.72"

text \<open>The same state with a forest of one twig, so that a tick draws a branch.\<close>

definition treeSketch0 :: Sketch where
  "treeSketch0 = sketch0\<lparr>forest := [\<lparr>xRatio = 0.5, scale = 1, branch = twig0, seed = 1234\<rparr>]\<rparr>"

text \<open>
  A branch at depth 8 with two twigs at depth 9, for concrete instances.
\<close>

definition stub0 :: Branch where
  "stub0 = Branch 0 0 8 0
     [Branch 0 0 9 (- 0.6) [] 0.1 True 0.7, Branch 0 0 9 0.6 [] 0.2 False 0.75] 0.9 True 0.72"

section \<open>Properties\<close>

subsection \<open>The random stream\<close>

declare createBranch.simps [simp del]

lemma lcg_range: "0 \<le> fst (lcg z) \<and> fst (lcg z) < 1"
  by (simp add: lcg_def Let_def lcg_m_def)

lemma random2_range:
  assumes "lo \<le> hi"
  shows "lo \<le> fst (random2 lo hi z) \<and> fst (random2 lo hi z) \<le> hi"
proof -
  obtain r z' where l: "lcg z = (r, z')" by (cases "lcg z")
  with lcg_range[of z] have r: "0 \<le> r" "r < 1" by auto
  have v: "fst (random2 lo hi z) = r * (hi - lo) + lo"
    using assms l by (simp add: random2_def)
  have "0 \<le> r * (hi - lo)" using r assms by simp
  moreover have "r * (hi - lo) \<le> 1 * (hi - lo)"
    using r assms by (intro mult_right_mono) auto
  ultimately show ?thesis using v by simp
qed

lemma count_nodes_children: "count_nodes b = Suc (sum_list (map count_nodes (children b)))"
  by (cases b) simp

lemma count_nodes_attachChild [simp]: "count_nodes (attachChild c a) = count_nodes c"
  by (simp add: attachChild_def count_nodes_children[of c])

lemma createBranch_count_aux:
  "m - d = n \<Longrightarrow> d \<le> m \<Longrightarrow> count_nodes (fst (createBranch m d z)) = 2 ^ (n + 1) - 1"
proof (induction n arbitrary: d z)
  case 0
  then have "\<not> d < m" by simp
  then show ?case
    by (subst createBranch.simps) (simp add: Let_def split: prod.splits)
next
  case (Suc n)
  then have lt: "d < m" and n: "m - (d + 1) = n" and le: "d + 1 \<le> m" by simp_all
  have ih: "count_nodes (fst (createBranch m (d + 1) z')) = 2 ^ (n + 1) - 1" for z'
    using Suc.IH[OF n le] .
  have pos: "(1::nat) \<le> 2 ^ (n + 1)" by simp
  obtain nt z1 where a1: "random2 0.05 0.95 z = (nt, z1)" by (cases "random2 0.05 0.95 z")
  obtain hf z2 where a2: "random1 1 z1 = (hf, z2)" by (cases "random1 1 z1")
  obtain lm z3 where a3: "random2 (- 0.08) 0.08 z2 = (lm, z3)" by (cases "random2 (- 0.08) 0.08 z2")
  obtain c0 z4 where a4: "createBranch m (d + 1) z3 = (c0, z4)" by (cases "createBranch m (d + 1) z3")
  obtain r0 z5 where a5: "random2 (- 0.15) 0.15 z4 = (r0, z5)" by (cases "random2 (- 0.15) 0.15 z4")
  obtain c1 z6 where a6: "createBranch m (d + 1) z5 = (c1, z6)" by (cases "createBranch m (d + 1) z5")
  obtain r1 z7 where a7: "random2 (- 0.15) 0.15 z6 = (r1, z7)" by (cases "random2 (- 0.15) 0.15 z6")
  have c0: "count_nodes c0 = 2 ^ (n + 1) - 1" using ih[of z3] a4 by simp
  have c1: "count_nodes c1 = 2 ^ (n + 1) - 1" using ih[of z5] a6 by simp
  have "count_nodes (fst (createBranch m d z)) = Suc (count_nodes c0 + count_nodes c1)"
    using lt a1 a2 a3 a4 a5 a6 a7 by (subst createBranch.simps) simp
  also have "\<dots> = 2 ^ (Suc n + 1) - 1"
  proof -
    define k :: nat where "k = 2 ^ (n + 1)"
    have k1: "1 \<le> k" and k2: "(2::nat) ^ (Suc n + 1) = 2 * k" by (simp_all add: k_def)
    have "count_nodes c0 = k - 1" "count_nodes c1 = k - 1" using c0 c1 by (simp_all add: k_def)
    then show ?thesis using k1 unfolding k2 by arith
  qed
  finally show ?case .
qed

lemma createBranch_count:
  "count_nodes (fst (createBranch m 0 z)) = 2 ^ (m + 1) - 1"
  using createBranch_count_aux[of m 0 m z] by simp

lemma count_nodes_setTrunk [simp]: "count_nodes (setTrunk b l t) = count_nodes b"
  by (simp add: setTrunk_def count_nodes_children[of b])

lemma buildTreeSkeleton_fst:
  "fst (buildTreeSkeleton m sd st) =
     setTrunk (fst (createBranch m 0 (randomSeed sd)))
       (height st * (if width st < 600 then 0.22 else 0.26))
       (if width st < 600 then 18 else 28)"
  by (simp add: buildTreeSkeleton_def Let_def split: prod.splits)


subsection \<open>What rendering and the particle system leave unchanged\<close>

declare renderBranch.simps [simp del]

lemma spawn_frame [simp]:
  "currentMood (spawnFallingParticle x y sc st) = currentMood st"
  "currentWind (spawnFallingParticle x y sc st) = currentWind st"
  "currentSceneMode (spawnFallingParticle x y sc st) = currentSceneMode st"
  "width (spawnFallingParticle x y sc st) = width st"
  "height (spawnFallingParticle x y sc st) = height st"
  "forest (spawnFallingParticle x y sc st) = forest st"
  "canvas (spawnFallingParticle x y sc st) = canvas st"
  by (simp_all add: spawnFallingParticle_def Let_def split: prod.splits)

lemma emit_frame [simp]:
  "currentMood (emit ops st) = currentMood st"
  "currentWind (emit ops st) = currentWind st"
  "currentSceneMode (emit ops st) = currentSceneMode st"
  "width (emit ops st) = width st"
  "height (emit ops st) = height st"
  "forest (emit ops st) = forest st"
  "particles (emit ops st) = particles st"
  "rng (emit ops st) = rng st"
  "canvas (emit ops st) = canvas st @ ops"
  by (simp_all add: emit_def)

lemma derived_frame [simp]:
  "renderMaxDepth (emit ops st) = renderMaxDepth st"
  "bloomFactor (emit ops st) = bloomFactor st"
  "renderMaxDepth (spawnFallingParticle x y sc st) = renderMaxDepth st"
  "bloomFactor (spawnFallingParticle x y sc st) = bloomFactor st"
  by (simp_all add: renderMaxDepth_def bloomFactor_def)

lemma renderNode_frame [simp]:
  "currentMood (renderNode tk d nt hf blen bthick w tx ty style sc st) = currentMood st"
  "currentWind (renderNode tk d nt hf blen bthick w tx ty style sc st) = currentWind st"
  "currentSceneMode (renderNode tk d nt hf blen bthick w tx ty style sc st) = currentSceneMode st"
  "width (renderNode tk d nt hf blen bthick w tx ty style sc st) = width st"
  "height (renderNode tk d nt hf blen bthick w tx ty style sc st) = height st"
  "forest (renderNode tk d nt hf blen bthick w tx ty style sc st) = forest st"
  by (simp_all add: renderNode_def Let_def)

lemma renderNode_derived [simp]:
  "renderMaxDepth (renderNode tk d nt hf blen bthick w tx ty style sc st) = renderMaxDepth st"
  "bloomFactor (renderNode tk d nt hf blen bthick w tx ty style sc st) = bloomFactor st"
  by (simp_all add: renderMaxDepth_def bloomFactor_def)

lemma frame_emit [simp]: "frame (emit ops st) = frame st"
  by (simp add: frame_def)

lemma frame_renderNode [simp]:
  "frame (renderNode tk d nt hf blen bthick w tx ty style sc st) = frame st"
  by (simp add: frame_def)

lemma frame_render:
  "frame (renderBranch tk b blen bthick w x y ca style sc st) = frame st"
  "frame (renderChildren tk cs blen bthick w lw tx ty ca style sc st) = frame st"
proof (induction tk b blen bthick w x y ca style sc st
        and tk cs blen bthick w lw tx ty ca style sc st
        rule: renderBranch_renderChildren.induct)
  case (1 tk l t d a cs nt hf lm blen bthick windAngle x y cumAngle style sc st)
  then show ?case
    by (simp add: renderBranch.simps Let_def)
next
  case (2 tk blen bthick windAngle localWind tipX tipY cumAngle style sc st)
  then show ?case by simp
next
  case (3 tk child rest blen bthick windAngle localWind tipX tipY cumAngle style sc st)
  then show ?case
    by (simp add: Let_def)
qed

lemma frame_drawForest: "frame (drawForest tk w ts st) = frame st"
  by (induction ts arbitrary: st) (simp_all add: Let_def frame_render)

lemma frame_particles_update [simp]: "frame (st\<lparr>particles := ps\<rparr>) = frame st"
  by (simp add: frame_def)

lemma drawParticle_fields [simp]:
  "frame (drawParticle sty part st) = frame st"
  "particles (drawParticle sty part st) = particles st"
  "height (drawParticle sty part st) = height st"
  "rng (drawParticle sty part st) = rng st"
  by (simp_all add: drawParticle_def Let_def frame_def)

lemma frame_particleLoop: "frame (particleLoop tk wforce sty n st) = frame st"
  by (induction n arbitrary: st) (simp_all add: Let_def)

lemma frame_updateParticles: "frame (updateParticles tk wforce sty st) = frame st"
  by (simp add: updateParticles_def Let_def frame_particleLoop)

lemma render_fields [simp]:
  "currentMood (renderBranch tk b blen bthick w x y ca style sc st) = currentMood st"
  "currentSceneMode (renderBranch tk b blen bthick w x y ca style sc st) = currentSceneMode st"
  "currentMood (renderChildren tk cs blen bthick w lw tx ty ca style sc st) = currentMood st"
  "currentSceneMode (renderChildren tk cs blen bthick w lw tx ty ca style sc st) = currentSceneMode st"
  using frame_render(1)[of tk b blen bthick w x y ca style sc st]
        frame_render(2)[of tk cs blen bthick w lw tx ty ca style sc st]
  by (simp_all add: frame_def)

lemma render_derived [simp]:
  "renderMaxDepth (renderBranch tk b blen bthick w x y ca style sc st) = renderMaxDepth st"
  "bloomFactor (renderBranch tk b blen bthick w x y ca style sc st) = bloomFactor st"
  "renderMaxDepth (renderChildren tk cs blen bthick w lw tx ty ca style sc st) = renderMaxDepth st"
  "bloomFactor (renderChildren tk cs blen bthick w lw tx ty ca style sc st) = bloomFactor st"
  by (simp_all add: renderMaxDepth_def bloomFactor_def)

lemma buildTreeSkeleton_snd:
  "snd (buildTreeSkeleton m sd st) = st\<lparr>rng := snd (createBranch m 0 (randomSeed sd))\<rparr>"
  by (simp add: buildTreeSkeleton_def Let_def split: prod.splits)

declare forestLoop.simps [simp del]

lemma forestLoop_done: "\<not> i < 10 \<Longrightarrow> forestLoop i st = st"
  by (subst forestLoop.simps) simp

lemma forestLoop_forest:
  "i \<le> 10 \<Longrightarrow> forest (forestLoop i st) = forest st @ map (mkTree (width st) (height st)) [i..<10]
     \<and> currentMood (forestLoop i st) = currentMood st
     \<and> currentWind (forestLoop i st) = currentWind st
     \<and> currentSceneMode (forestLoop i st) = currentSceneMode st
     \<and> width (forestLoop i st) = width st
     \<and> height (forestLoop i st) = height st
     \<and> particles (forestLoop i st) = particles st
     \<and> canvas (forestLoop i st) = canvas st"
proof (induction i st rule: forestLoop.induct)
  case (1 i st)
  show ?case
  proof (cases "i < 10")
    case False
    with 1 show ?thesis by (simp add: forestLoop_done)
  next
    case True
    obtain sc z where a: "random2 0.30 0.42 (randomSeed (5555 + int i * 937)) = (sc, z)"
      by (cases "random2 0.30 0.42 (randomSeed (5555 + int i * 937))")
    obtain b st' where b: "buildTreeSkeleton 7 (5555 + int i * 937) (st\<lparr>rng := z\<rparr>) = (b, st')"
      by (cases "buildTreeSkeleton 7 (5555 + int i * 937) (st\<lparr>rng := z\<rparr>)")
    have b1: "b = setTrunk (fst (createBranch 7 0 (randomSeed (5555 + int i * 937))))
                 (height st * (if width st < 600 then 0.22 else 0.26)) (if width st < 600 then 18 else 28)"
      using buildTreeSkeleton_fst[of 7 "5555 + int i * 937" "st\<lparr>rng := z\<rparr>"] b by simp
    have b2: "st' = st\<lparr>rng := snd (createBranch 7 0 (randomSeed (5555 + int i * 937)))\<rparr>"
      using buildTreeSkeleton_snd[of 7 "5555 + int i * 937" "st\<lparr>rng := z\<rparr>"] b by simp
    define st2 where "st2 = st'\<lparr>forest := forest st' @
        [\<lparr>xRatio = 0.05 + real i / (10 - 1) * 0.9, scale = sc, branch = b, seed = 5555 + int i * 937\<rparr>]\<rparr>"
    have step: "forestLoop i st = forestLoop (i + 1) st2"
      using True a b by (subst forestLoop.simps) (simp add: Let_def st2_def)
    have ih: "forest (forestLoop (i + 1) st2) = forest st2 @ map (mkTree (width st2) (height st2)) [i + 1..<10]
     \<and> currentMood (forestLoop (i + 1) st2) = currentMood st2
     \<and> currentWind (forestLoop (i + 1) st2) = currentWind st2
     \<and> currentSceneMode (forestLoop (i + 1) st2) = currentSceneMode st2
     \<and> width (forestLoop (i + 1) st2) = width st2
     \<and> height (forestLoop (i + 1) st2) = height st2
     \<and> particles (forestLoop (i + 1) st2) = particles st2
     \<and> canvas (forestLoop (i + 1) st2) = canvas st2"
      using "1.IH"[OF True refl refl refl a[symmetric] refl b[symmetric]] True
      by (simp add: st2_def)
    have new: "\<lparr>xRatio = 0.05 + real i / (10 - 1) * 0.9, scale = sc, branch = b, seed = 5555 + int i * 937\<rparr>
                 = mkTree (width st) (height st) i"
      using a b1 by (simp add: mkTree_def)
    have upt: "[i..<10] = i # [i + 1..<10]" using True by (simp add: upt_conv_Cons)
    show ?thesis
      unfolding step using ih new by (simp add: st2_def b2 upt)
  qed
qed


subsection \<open>The forest rebuild and the tick, field by field\<close>

lemma rebuildForest_1:
  "forest (rebuildForest 1 st) =
     [\<lparr>xRatio = 0.5, scale = 1.0, branch = fst (buildTreeSkeleton 9 1234 st), seed = 1234\<rparr>]"
  by (simp add: rebuildForest_def Let_def case_prod_beta buildTreeSkeleton_snd buildTreeSkeleton_fst)

lemma rebuildForest_2: "length (forest (rebuildForest 2 st)) = 2"
  by (simp add: rebuildForest_def Let_def case_prod_beta buildTreeSkeleton_snd)

lemma rebuildForest_other:
  "mode \<noteq> 1 \<Longrightarrow> mode \<noteq> 2 \<Longrightarrow>
     forest (rebuildForest mode st) = map (mkTree (width st) (height st)) [0..<10]"
  using forestLoop_forest[of 0 "st\<lparr>currentSceneMode := mode, forest := []\<rparr>"]
  by (simp add: rebuildForest_def Let_def)

lemma rebuildForest_fields [simp]:
  "currentMood (rebuildForest mode st) = currentMood st"
  "currentWind (rebuildForest mode st) = currentWind st"
  "currentSceneMode (rebuildForest mode st) = mode"
  "width (rebuildForest mode st) = width st"
  "height (rebuildForest mode st) = height st"
  "particles (rebuildForest mode st) = particles st"
  "canvas (rebuildForest mode st) = canvas st"
  using forestLoop_forest[of 0 "st\<lparr>currentSceneMode := mode, forest := []\<rparr>"]
  by (simp_all add: rebuildForest_def Let_def case_prod_beta buildTreeSkeleton_snd)

lemma frame_canvas_update [simp]: "frame (st\<lparr>canvas := c\<rparr>) = frame st"
  by (simp add: frame_def)

lemma draw_frame:
  "frame (draw tk st) =
     frame (smooth tk (if sceneMode tk \<noteq> currentSceneMode st then rebuildForest (sceneMode tk) st else st))"
  by (simp add: draw_def Let_def frame_updateParticles frame_drawForest)

lemma draw_currentMood:
  "currentMood (draw tk st) =
     (if mood tk \<ge> currentMood st then lerp (currentMood st) (mood tk) 0.1
      else lerp (currentMood st) (mood tk) 0.03)"
  using draw_frame[of tk st] by (simp add: frame_def smooth_def)

lemma draw_currentWind:
  "currentWind (draw tk st) = lerp (currentWind st) (windForce tk) 0.12"
  using draw_frame[of tk st] by (simp add: frame_def smooth_def)

lemma bloomFactor_constrain: "bloomFactor st = constrain (currentMood st) 0 1"
  by (simp add: bloomFactor_def map_within_def map_range_def Let_def)

lemma lerp_range:
  assumes "lo \<le> a" "a \<le> hi" "lo \<le> b" "b \<le> hi" "0 \<le> t" "t \<le> 1"
  shows "lo \<le> lerp a b t \<and> lerp a b t \<le> hi"
proof -
  have e: "lerp a b t = (1 - t) * a + t * b" by (simp add: lerp_def algebra_simps)
  have "(1 - t) * lo \<le> (1 - t) * a" "t * lo \<le> t * b"
       "(1 - t) * a \<le> (1 - t) * hi" "t * b \<le> t * hi"
    using assms by (simp_all add: mult_left_mono)
  moreover have "(1 - t) * lo + t * lo = lo" "(1 - t) * hi + t * hi = hi"
    by (simp_all add: algebra_simps)
  ultimately show ?thesis unfolding e by linarith
qed

lemma mkTree_fields [simp]:
  "xRatio (mkTree w h i) = 0.05 + real i / (10 - 1) * 0.9"
  "scale (mkTree w h i) = fst (random2 0.30 0.42 (randomSeed (5555 + int i * 937)))"
  "seed (mkTree w h i) = 5555 + int i * 937"
  "branch (mkTree w h i) = setTrunk (fst (createBranch 7 0 (randomSeed (5555 + int i * 937))))
      (h * (if w < 600 then 0.22 else 0.26)) (if w < 600 then 18 else 28)"
  by (simp_all add: mkTree_def)

lemma rebuildForest_length_1: "length (forest (rebuildForest mode st)) = 1 \<longleftrightarrow> mode = 1"
proof (cases "mode = 1")
  case True
  then show ?thesis by (simp add: rebuildForest_1)
next
  case m1: False
  show ?thesis
  proof (cases "mode = 2")
    case True
    then show ?thesis by (simp add: rebuildForest_2)
  next
    case False
    with m1 show ?thesis by (simp add: rebuildForest_other)
  qed
qed

subsection \<open>The particle loop as a filter\<close>

lemma expired_frame [simp]:
  "expired (st\<lparr>particles := ps\<rparr>) = expired st"
  "expired (emit ops st) = expired st"
  "expired (drawParticle sty part st) = expired st"
  by (simp_all add: expired_def fun_eq_iff)

lemma particleLoop_particles:
  "n \<le> length (particles st) \<Longrightarrow>
     particles (particleLoop tk w sty n st) =
       filter (\<lambda>q. \<not> expired st q) (map (integrate tk w) (take n (particles st)))
         @ drop n (particles st)"
proof (induction n arbitrary: st)
  case 0
  show ?case by simp
next
  case (Suc n)
  let ?ps = "particles st"
  let ?part = "integrate tk w (?ps ! n)"
  from Suc.prems have n: "n < length ?ps" by simp
  have tk: "take (Suc n) ?ps = take n ?ps @ [?ps ! n]"
    using n by (simp add: take_Suc_conv_app_nth)
  show ?case
  proof (cases "expired st ?part")
    case True
    let ?st' = "st\<lparr>particles := take n ?ps @ drop (Suc n) ?ps\<rparr>"
    have len: "n \<le> length (particles ?st')" using n by simp
    have "particles (particleLoop tk w sty (Suc n) st) = particles (particleLoop tk w sty n ?st')"
      using True by (simp add: Let_def)
    also have "\<dots> = filter (\<lambda>q. \<not> expired st q) (map (integrate tk w) (take n ?ps)) @ drop (Suc n) ?ps"
      using Suc.IH[OF len] n by simp
    finally show ?thesis using True by (simp add: tk)
  next
    case False
    let ?st' = "drawParticle sty ?part (st\<lparr>particles := ?ps[n := ?part]\<rparr>)"
    have len: "n \<le> length (particles ?st')" using n by simp
    have "particles (particleLoop tk w sty (Suc n) st) = particles (particleLoop tk w sty n ?st')"
      using False by (simp add: Let_def)
    also have "\<dots> = filter (\<lambda>q. \<not> expired st q) (map (integrate tk w) (take n ?ps))
                 @ ?part # drop (Suc n) ?ps"
      using Suc.IH[OF len] n by (simp add: drop_update_cancel Cons_nth_drop_Suc[symmetric] upd_conv_take_nth_drop)
    finally show ?thesis using False by (simp add: tk)
  qed
qed

lemma updateParticles_trim:
  "updateParticles tk w sty st =
     particleLoop tk w sty (length (drop (length (particles st) - MAX_PARTICLES) (particles st)))
       (st\<lparr>particles := drop (length (particles st) - MAX_PARTICLES) (particles st)\<rparr>)"
  by (simp add: updateParticles_def Let_def)

lemma updateParticles_particles:
  "particles (updateParticles tk w sty st) =
     filter (\<lambda>q. \<not> expired st q)
       (map (integrate tk w) (drop (length (particles st) - MAX_PARTICLES) (particles st)))"
  unfolding updateParticles_trim
  by (subst particleLoop_particles) simp_all

lemma updateParticles_length: "length (particles (updateParticles tk w sty st)) \<le> MAX_PARTICLES"
proof -
  have "length (particles (updateParticles tk w sty st))
          \<le> length (drop (length (particles st) - MAX_PARTICLES) (particles st))"
    unfolding updateParticles_particles
    using length_filter_le[of _ "map (integrate tk w) (drop (length (particles st) - MAX_PARTICLES) (particles st))"]
    by simp
  also have "\<dots> \<le> MAX_PARTICLES" by simp
  finally show ?thesis .
qed

lemma integrate_life: "life (integrate tk w p) = life p - 2"
  by (simp add: integrate_def Let_def)


lemma spawn_appends:
  "particles (spawnFallingParticle x y sc st) = particles st \<or>
   (\<exists>p. particles (spawnFallingParticle x y sc st) = particles st @ [p] \<and> life p = 255)"
  by (simp add: spawnFallingParticle_def Let_def split: prod.splits)

lemma draw_particles_length: "length (particles (draw tk st)) \<le> MAX_PARTICLES"
  by (simp add: draw_def Let_def updateParticles_length)

subsection \<open>The drawing of a tree\<close>

lemma foliageCount_append [simp]: "foliageCount (xs @ ys) = foliageCount xs + foliageCount ys"
  by (simp add: foliageCount_def)

lemma foliageCount_simps [simp]:
  "foliageCount [] = 0"
  "foliageCount (op # ops) = (if isFoliage op then 1 else 0) + foliageCount ops"
  by (simp_all add: foliageCount_def)

lemma renderNode_canvas:
  "canvas (renderNode tk d nt hf blen bthick w tx ty sty sc st) =
     canvas st @ [Segment bthick blen (bloomFactor st), Translate 0 (- blen)] @
       (if real d > renderMaxDepth st - 4 \<and> bloomFactor st > nt
        then [AttachedFoliage w hf (bloomFactor st) sty sc] else [])"
  by (simp add: renderNode_def Let_def)

lemma render_foliageCount:
  "foliageCount (canvas (renderBranch tk b blen bthick w x y ca sty sc st)) =
     foliageCount (canvas st) + attachedBranches (renderMaxDepth st) (bloomFactor st) b blen"
  "foliageCount (canvas (renderChildren tk cs blen bthick w lw tx ty ca sty sc st)) =
     foliageCount (canvas st) +
       sum_list (map (\<lambda>c. attachedBranches (renderMaxDepth st) (bloomFactor st) c (blen * lenMult c)) cs)"
proof (induction tk b blen bthick w x y ca sty sc st
        and tk cs blen bthick w lw tx ty ca sty sc st
        rule: renderBranch_renderChildren.induct)
  case (1 tk l t d a cs nt hf lm blen bthick windAngle x y cumAngle style sc st)
  then show ?case
    by (simp add: renderBranch.simps Let_def renderNode_canvas)
next
  case (2 tk blen bthick windAngle localWind tipX tipY cumAngle style sc st)
  then show ?case by simp
next
  case (3 tk child rest blen bthick windAngle localWind tipX tipY cumAngle style sc st)
  then show ?case
    by (simp add: Let_def)
qed

lemma attachedBranches_mono:
  "bf1 \<le> bf2 \<Longrightarrow> attachedBranches M bf1 b blen \<le> attachedBranches M bf2 b blen"
proof (induction M bf1 b blen rule: attachedBranches.induct)
  case (1 M bf l t d a cs nt hf lm blen)
  have own: "(if real d > M - 4 \<and> bf > nt then 1 else 0) \<le> (if real d > M - 4 \<and> bf2 > nt then (1::nat) else 0)"
    using "1.prems" by auto
  show ?case
  proof (cases "real d \<ge> M \<or> blen < 4")
    case True
    then show ?thesis using own by simp
  next
    case False
    have "sum_list (map (\<lambda>c. attachedBranches M bf c (blen * lenMult c)) cs)
            \<le> sum_list (map (\<lambda>c. attachedBranches M bf2 c (blen * lenMult c)) cs)"
      using "1.IH"[OF False _ "1.prems"] by (intro sum_list_mono) simp
    then show ?thesis using own False by simp
  qed
qed

lemma bloomFactor_mono: "currentMood s1 \<le> currentMood s2 \<Longrightarrow> bloomFactor s1 \<le> bloomFactor s2"
  by (simp add: bloomFactor_constrain constrain_def)


lemma render_canvas_grows:
  "\<exists>ops. canvas (renderBranch tk b blen bthick w x y ca sty sc st) = canvas st @ ops"
  "\<exists>ops. canvas (renderChildren tk cs blen bthick w lw tx ty ca sty sc st) = canvas st @ ops \<and>
         (ops = [] \<or> hd ops = Push)"
proof (induction tk b blen bthick w x y ca sty sc st
        and tk cs blen bthick w lw tx ty ca sty sc st
        rule: renderBranch_renderChildren.induct)
  case (1 tk l t d a cs nt hf lm blen bthick windAngle x y cumAngle style sc st)
  show ?case
  proof (cases "real d \<ge> renderMaxDepth st \<or> blen < 4")
    case True
    then show ?thesis by (simp add: renderBranch.simps Let_def renderNode_canvas)
  next
    case False
    from "1.IH"[OF refl refl refl False] obtain ops where
      "canvas (renderBranch tk (Branch l t d a cs nt hf lm) blen bthick windAngle x y cumAngle style sc st)
         = canvas (renderNode tk d nt hf blen bthick windAngle (x + sin cumAngle * blen)
                     (y - cos cumAngle * blen) style sc st) @ ops"
      using False by (auto simp add: renderBranch.simps Let_def)
    then show ?thesis by (simp add: renderNode_canvas)
  qed
next
  case (2 tk blen bthick windAngle localWind tipX tipY cumAngle style sc st)
  then show ?case by simp
next
  case (3 tk child rest blen bthick windAngle localWind tipX tipY cumAngle style sc st)
  let ?na = "angleOffset child + localWind"
  let ?st1 = "emit [Push, Rotate ?na] st"
  let ?st2 = "renderBranch tk child (blen * lenMult child) (bthick * 0.7) windAngle tipX tipY
                  (cumAngle + ?na) style sc ?st1"
  from "3.IH"(1)[OF refl refl] obtain ops1 where o1: "canvas ?st2 = canvas ?st1 @ ops1" by blast
  from "3.IH"(2)[OF refl refl refl] obtain ops2 where
    o2: "canvas (renderChildren tk rest blen bthick windAngle localWind tipX tipY cumAngle style sc
           (emit [Pop] ?st2)) = canvas (emit [Pop] ?st2) @ ops2" by blast
  have "canvas (renderChildren tk (child # rest) blen bthick windAngle localWind tipX tipY cumAngle style sc st)
          = canvas st @ (Push # Rotate ?na # ops1 @ Pop # ops2)"
    using o1 o2 by (simp add: Let_def)
  then show ?case by (intro exI[of _ "Push # Rotate ?na # ops1 @ Pop # ops2"]) simp
qed

lemma renderBranch_unfold:
  "renderBranch tk b blen bthick w x y ca sty sc st =
     (let tipX = x + sin ca * blen;
          tipY = y - cos ca * blen;
          st1 = renderNode tk (depth b) (noiseThreshold b) (hasFlower b) blen bthick w tipX tipY sty sc st
      in if real (depth b) \<ge> renderMaxDepth st \<or> blen < 4 then st1
         else renderChildren tk (children b) blen bthick w
                (w * flexibility (renderMaxDepth st) (depth b)) tipX tipY ca sty sc st1)"
  by (cases b) (simp add: renderBranch.simps Let_def)

lemma renderChildren_append:
  "renderChildren tk (pre @ post) blen bthick w lw tx ty ca sty sc st =
     renderChildren tk post blen bthick w lw tx ty ca sty sc
       (renderChildren tk pre blen bthick w lw tx ty ca sty sc st)"
  by (induction pre arbitrary: st) (simp_all add: Let_def)

lemma flexibility_eq: "flexibility M d = 0.05 + (1.3 - 0.05) * (real d / M)"
  by (simp add: flexibility_def map_range_def)

lemma renderMaxDepth_cases: "renderMaxDepth st \<in> {7, 8, 9}"
  by (simp add: renderMaxDepth_def)

subsection \<open>Foliage and bloom values in the drawing\<close>

lemma foliageOf_simps [simp]:
  "foliageOf M bf w sty sc [] = []"
  "foliageOf M bf w sty sc (xs @ ys) = foliageOf M bf w sty sc xs @ foliageOf M bf w sty sc ys"
  by (simp_all add: foliageOf_def)

lemma foliageOf_concat:
  "foliageOf M bf w sty sc (concat xss) = concat (map (foliageOf M bf w sty sc) xss)"
  by (induction xss) simp_all

lemma render_foliage_ops:
  "filter isFoliage (canvas (renderBranch tk b blen bthick w x y ca sty sc st)) =
     filter isFoliage (canvas st) @
       foliageOf (renderMaxDepth st) (bloomFactor st) w sty sc (reached (renderMaxDepth st) b blen)"
  "filter isFoliage (canvas (renderChildren tk cs blen bthick w lw tx ty ca sty sc st)) =
     filter isFoliage (canvas st) @
       foliageOf (renderMaxDepth st) (bloomFactor st) w sty sc
         (concat (map (\<lambda>c. reached (renderMaxDepth st) c (blen * lenMult c)) cs))"
proof (induction tk b blen bthick w x y ca sty sc st
        and tk cs blen bthick w lw tx ty ca sty sc st
        rule: renderBranch_renderChildren.induct)
  case (1 tk l t d a cs nt hf lm blen bthick windAngle x y cumAngle style sc st)
  then show ?case
    by (simp add: renderBranch.simps Let_def renderNode_canvas foliageOf_def)
next
  case (2 tk blen bthick windAngle localWind tipX tipY cumAngle style sc st)
  then show ?case by simp
next
  case (3 tk child rest blen bthick windAngle localWind tipX tipY cumAngle style sc st)
  then show ?case
    by (simp add: Let_def)
qed


lemma reached_unfold:
  "reached M b blen =
     b # (if real (depth b) \<ge> M \<or> blen < 4 then []
          else concat (map (\<lambda>c. reached M c (blen * lenMult c)) (children b)))"
  by (cases b) simp

declare reached.simps [simp del]

lemma bloomsDrawn_simps [simp]:
  "bloomsDrawn [] = []"
  "bloomsDrawn (op # ops) = bloomOf op @ bloomsDrawn ops"
  "bloomsDrawn (xs @ ys) = bloomsDrawn xs @ bloomsDrawn ys"
  by (simp_all add: bloomsDrawn_def)

lemma render_blooms:
  "set (bloomsDrawn (canvas (renderBranch tk b blen bthick w x y ca sty sc st))) =
     set (bloomsDrawn (canvas st)) \<union> {bloomFactor st}"
  "set (bloomsDrawn (canvas (renderChildren tk cs blen bthick w lw tx ty ca sty sc st))) =
     set (bloomsDrawn (canvas st)) \<union> (if cs = [] then {} else {bloomFactor st})"
proof (induction tk b blen bthick w x y ca sty sc st
        and tk cs blen bthick w lw tx ty ca sty sc st
        rule: renderBranch_renderChildren.induct)
  case (1 tk l t d a cs nt hf lm blen bthick windAngle x y cumAngle style sc st)
  then show ?case
    by (auto simp add: renderBranch.simps Let_def renderNode_canvas)
next
  case (2 tk blen bthick windAngle localWind tipX tipY cumAngle style sc st)
  then show ?case by simp
next
  case (3 tk child rest blen bthick windAngle localWind tipX tipY cumAngle style sc st)
  then show ?case
    by (auto simp add: Let_def)
qed

lemma drawForest_blooms:
  "set (bloomsDrawn (canvas (drawForest tk w ts st))) =
     set (bloomsDrawn (canvas st)) \<union> (if ts = [] then {} else {bloomFactor st})"
proof (induction ts arbitrary: st)
  case Nil
  show ?case by simp
next
  case (Cons tree rest)
  have bf: "bloomFactor (renderBranch tk b blen bthick w x y ca sty sc s) = bloomFactor s"
    for b blen bthick x y ca sty sc s by simp
  show ?case
    by (auto simp add: Let_def Cons.IH render_blooms(1))
qed

lemma drawForest_canvas_grows: "\<exists>ops. canvas (drawForest tk w ts st) = canvas st @ ops"
proof (induction ts arbitrary: st)
  case Nil
  show ?case by simp
next
  case (Cons tree rest)
  let ?st1 = "emit [Push, Translate (width st * xRatio tree) (height st)] st"
  let ?st2 = "renderBranch tk (branch tree) (len (branch tree) * scale tree)
                  (thick (branch tree) * scale tree) w (width st * xRatio tree) (height st) 0
                  (flowerStyle tk) (scale tree) ?st1"
  obtain o1 where o1: "canvas ?st2 = canvas ?st1 @ o1"
    using render_canvas_grows(1)[of tk "branch tree" _ _ w _ _ 0 "flowerStyle tk" "scale tree" ?st1]
    by blast
  obtain o2 where o2: "canvas (drawForest tk w rest (emit [Pop] ?st2)) = canvas (emit [Pop] ?st2) @ o2"
    using Cons.IH by blast
  have "canvas (drawForest tk w (tree # rest) st) = canvas st @
          ([Push, Translate (width st * xRatio tree) (height st)] @ o1 @ [Pop] @ o2)"
    using o1 o2 by (simp add: Let_def)
  then show ?case by blast
qed

lemma drawParticle_canvas:
  "\<exists>ops. canvas (drawParticle sty part st) = canvas st @ ops \<and> bloomsDrawn ops = []"
  by (simp add: drawParticle_def Let_def)

lemma particleLoop_canvas_grows:
  "\<exists>ops. canvas (particleLoop tk wforce sty n st) = canvas st @ ops \<and> bloomsDrawn ops = []"
proof (induction n arbitrary: st)
  case 0
  show ?case by simp
next
  case (Suc n)
  let ?part = "integrate tk wforce (particles st ! n)"
  show ?case
  proof (cases "expired st ?part")
    case True
    then show ?thesis
      using Suc.IH[of "st\<lparr>particles := take n (particles st) @ drop (Suc n) (particles st)\<rparr>"]
      by (simp add: Let_def)
  next
    case False
    let ?st0 = "st\<lparr>particles := (particles st)[n := ?part]\<rparr>"
    obtain o1 where o1: "canvas (drawParticle sty ?part ?st0) = canvas ?st0 @ o1" "bloomsDrawn o1 = []"
      using drawParticle_canvas[of sty ?part ?st0] by blast
    obtain o2 where o2: "canvas (particleLoop tk wforce sty n (drawParticle sty ?part ?st0))
                          = canvas (drawParticle sty ?part ?st0) @ o2" "bloomsDrawn o2 = []"
      using Suc.IH[of "drawParticle sty ?part ?st0"] by blast
    have "canvas (particleLoop tk wforce sty (Suc n) st) = canvas st @ (o1 @ o2)"
      using False o1(1) o2(1) by (simp add: Let_def)
    moreover have "bloomsDrawn (o1 @ o2) = []" using o1(2) o2(2) by simp
    ultimately show ?thesis by blast
  qed
qed

lemma updateParticles_canvas_grows:
  "\<exists>ops. canvas (updateParticles tk wforce sty st) = canvas st @ ops \<and> bloomsDrawn ops = []"
  using particleLoop_canvas_grows[of tk wforce sty _
          "st\<lparr>particles := drop (length (particles st) - MAX_PARTICLES) (particles st)\<rparr>"]
        particleLoop_canvas_grows[of tk wforce sty _ st]
  by (simp add: updateParticles_def Let_def)


lemma draw_canvas:
  "\<exists>rest. canvas (draw tk st) =
      [Clear, Push,
       FillRect (if currentMood (draw tk st) > 0
                 then RGBA 255 230 200 (currentMood (draw tk st) * 20)
                 else RGBA 5 5 15 (\<bar>currentMood (draw tk st)\<bar> * 180))
         (width st) (height st),
       Pop] @ rest \<and>
      set (bloomsDrawn rest) =
        (if forest (draw tk st) = [] then {} else {constrain (currentMood (draw tk st)) 0 1})"
proof -
  define st1 where "st1 = (if sceneMode tk \<noteq> currentSceneMode st then rebuildForest (sceneMode tk) st else st)"
  define st2 where "st2 = smooth tk st1"
  define base where "base = [Clear, Push,
       FillRect (if currentMood st2 > 0 then RGBA 255 230 200 (currentMood st2 * 20)
                 else RGBA 5 5 15 (\<bar>currentMood st2\<bar> * 180)) (width st2) (height st2), Pop]"
  define st3 where "st3 = st2\<lparr>canvas := base\<rparr>"
  define st4 where "st4 = drawForest tk (totalWindAngle tk st3) (forest st3) st3"
  have d: "draw tk st = updateParticles tk (currentWind st4) (flowerStyle tk) st4"
    by (simp add: draw_def Let_def st1_def st2_def st3_def st4_def base_def)
  have f: "frame (draw tk st) = frame st3"
    by (simp add: d st4_def frame_updateParticles frame_drawForest)
  have wh: "width st2 = width st" "height st2 = height st"
    by (simp_all add: st2_def st1_def smooth_def)
  have cm: "currentMood (draw tk st) = currentMood st2" "forest (draw tk st) = forest st3"
    using f by (simp_all add: frame_def st3_def)
  obtain o1 where o1: "canvas st4 = base @ o1"
    using drawForest_canvas_grows[of tk "totalWindAngle tk st3" "forest st3" st3]
    by (auto simp add: st4_def st3_def)
  obtain o2 where o2: "canvas (draw tk st) = canvas st4 @ o2" "bloomsDrawn o2 = []"
    using updateParticles_canvas_grows[of tk "currentWind st4" "flowerStyle tk" st4] d by auto
  have b3: "bloomFactor st3 = constrain (currentMood st2) 0 1"
    by (simp add: bloomFactor_constrain st3_def)
  have "set (bloomsDrawn (canvas st4)) =
          set (bloomsDrawn base) \<union> (if forest st3 = [] then {} else {bloomFactor st3})"
    using drawForest_blooms[of tk "totalWindAngle tk st3" "forest st3" st3]
    by (simp add: st4_def st3_def)
  then have "set (bloomsDrawn o1) = (if forest st3 = [] then {} else {bloomFactor st3})"
    by (simp add: o1 base_def)
  then have "set (bloomsDrawn (o1 @ o2)) =
        (if forest (draw tk st) = [] then {} else {constrain (currentMood (draw tk st)) 0 1})"
    using o2(2) by (simp add: cm b3)
  moreover have "canvas (draw tk st) = base @ (o1 @ o2)" using o1 o2(1) by simp
  ultimately show ?thesis
    unfolding base_def wh cm[symmetric] by blast
qed

lemma draw_forest_same:
  "sceneMode tk = currentSceneMode st \<Longrightarrow> forest (draw tk st) = forest st"
  using draw_frame[of tk st] by (simp add: frame_def smooth_def)

subsection \<open>Claims\<close>

text \<open>
  C3. Skeleton generation is deterministic. \<^verbatim>\<open>buildTreeSkeleton\<close> reseeds the
  stream, so the tree it returns does not depend on the sketch state it is called
  in beyond the canvas size: two calls with the same seed and the same
  \<open>maxDepth\<close>, in any two states of equal width and height, return equal trees
  (equal as values, so node for node in every field), and the tree has exactly
  \<open>2 ^ (maxDepth + 1) - 1\<close> nodes.
\<close>

theorem build_deterministic:
  "width s1 = width s2 \<Longrightarrow> height s1 = height s2 \<Longrightarrow>
     fst (buildTreeSkeleton maxDepth sd s1) = fst (buildTreeSkeleton maxDepth sd s2) \<and>
     count_nodes (fst (buildTreeSkeleton maxDepth sd s1)) = 2 ^ (maxDepth + 1) - 1 \<and>
     count_nodes (fst (buildTreeSkeleton maxDepth sd s2)) = 2 ^ (maxDepth + 1) - 1"
  by (simp add: buildTreeSkeleton_fst createBranch_count)

theorem build_deterministic_witness:
  "fst (buildTreeSkeleton 9 1234 (sketch0\<lparr>rng := 77\<rparr>)) =
     fst (buildTreeSkeleton 9 1234 (sketch0\<lparr>currentMood := 1, rng := 5\<rparr>)) \<and>
   count_nodes (fst (buildTreeSkeleton 9 1234 (sketch0\<lparr>rng := 77\<rparr>))) = 1023"
  using build_deterministic [of "sketch0\<lparr>rng := 77\<rparr>" "sketch0\<lparr>currentMood := 1, rng := 5\<rparr>" 9 1234]
  by simp

text \<open>
  C5. Mood smoothing is asymmetric and wind smoothing symmetric: one tick moves
  the smoothed mood toward the raw mood with coefficient 0.1 when the raw mood is
  greater than or equal to the current smoothed mood and with 0.03 otherwise, and
  the smoothed wind toward the raw wind with 0.12. From a smoothed mood of 0, one
  tick toward 1 yields 0.1 and one tick toward -1 yields -0.03, so the rising
  delta strictly exceeds the falling one in magnitude.
\<close>

theorem smoothing_asymmetric:
  "currentMood (draw tk st) =
     lerp (currentMood st) (mood tk) (if mood tk \<ge> currentMood st then 0.1 else 0.03) \<and>
   currentWind (draw tk st) = lerp (currentWind st) (windForce tk) 0.12 \<and>
   (currentMood st = 0 \<longrightarrow> mood up = 1 \<longrightarrow> mood down = - 1 \<longrightarrow>
      currentMood (draw up st) = 0.1 \<and> currentMood (draw down st) = - 0.03 \<and>
      \<bar>currentMood (draw up st) - currentMood st\<bar> > \<bar>currentMood (draw down st) - currentMood st\<bar>)"
  by (simp add: draw_currentMood draw_currentWind lerp_def)

theorem smoothing_asymmetric_witness:
  "currentMood (draw (tick0\<lparr>mood := 1\<rparr>) sketch0) = 0.1 \<and>
   currentMood (draw (tick0\<lparr>mood := - 1\<rparr>) sketch0) = - 0.03 \<and>
   \<bar>currentMood (draw (tick0\<lparr>mood := 1\<rparr>) sketch0) - 0\<bar> >
     \<bar>currentMood (draw (tick0\<lparr>mood := - 1\<rparr>) sketch0) - 0\<bar>"
  using smoothing_asymmetric [of tick0 sketch0 "tick0\<lparr>mood := 1\<rparr>" "tick0\<lparr>mood := - 1\<rparr>"]
  by (simp add: sketch0_def)


text \<open>
  C1 (as stated, refuted). The claim is that a scene mode outside the documented
  set rebuilds the single-tree configuration. \<^verbatim>\<open>rebuildForest\<close> tests
  \<^verbatim>\<open>mode === 1\<close>, then \<^verbatim>\<open>mode === 2\<close>, and sends every other value to its forest
  branch: for mode 0 the forest does not consist of one tree at \<open>xRatio = 0.5\<close>
  with \<open>scale = 1.0\<close>.
\<close>

theorem rebuild_zero_is_forest:
  "\<not> (length (forest (rebuildForest 0 sketch0)) = 1 \<and>
      xRatio (forest (rebuildForest 0 sketch0) ! 0) = 0.5 \<and>
      scale (forest (rebuildForest 0 sketch0) ! 0) = 1.0)"
  by (simp add: rebuildForest_other)

text \<open>
  C1 (amended). For every scene-mode value other than 1 and 2, inside or outside
  the documented set, the rebuild produces the ten-tree forest of mode 3, each
  tree built with depth limit 7. The forest has exactly one instance if and only
  if the mode is 1, and that instance has \<open>xRatio = 0.5\<close>, \<open>scale = 1.0\<close> and the
  full depth limit 9.
\<close>

theorem rebuild_other_modes:
  "(mode \<noteq> 1 \<longrightarrow> mode \<noteq> 2 \<longrightarrow>
      forest (rebuildForest mode st) = forest (rebuildForest 3 st) \<and>
      length (forest (rebuildForest mode st)) = 10 \<and>
      (\<forall>t \<in> set (forest (rebuildForest mode st)). count_nodes (branch t) = 2 ^ (7 + 1) - 1)) \<and>
   (length (forest (rebuildForest mode st)) = 1 \<longleftrightarrow> mode = 1) \<and>
   (mode = 1 \<longrightarrow>
      xRatio (forest (rebuildForest mode st) ! 0) = 0.5 \<and>
      scale (forest (rebuildForest mode st) ! 0) = 1.0 \<and>
      count_nodes (branch (forest (rebuildForest mode st) ! 0)) = 2 ^ (9 + 1) - 1)"
proof -
  have a: "forest (rebuildForest mode st) = forest (rebuildForest 3 st) \<and>
      length (forest (rebuildForest mode st)) = 10 \<and>
      (\<forall>t \<in> set (forest (rebuildForest mode st)). count_nodes (branch t) = 2 ^ (7 + 1) - 1)"
    if "mode \<noteq> 1" "mode \<noteq> 2"
    using that by (auto simp add: rebuildForest_other createBranch_count)
  have b: "xRatio (forest (rebuildForest mode st) ! 0) = 0.5 \<and>
      scale (forest (rebuildForest mode st) ! 0) = 1.0 \<and>
      count_nodes (branch (forest (rebuildForest mode st) ! 0)) = 2 ^ (9 + 1) - 1"
    if "mode = 1"
    using that by (simp add: rebuildForest_1 buildTreeSkeleton_fst createBranch_count)
  show ?thesis using a b rebuildForest_length_1[of mode st] by blast
qed

theorem rebuild_other_modes_witness:
  "forest (rebuildForest 0 sketch0) = forest (rebuildForest 3 sketch0) \<and>
   length (forest (rebuildForest 0 sketch0)) = 10 \<and>
   length (forest (rebuildForest (- 1) sketch0)) = 10 \<and>
   length (forest (rebuildForest 1 sketch0)) = 1 \<and>
   xRatio (forest (rebuildForest 1 sketch0) ! 0) = 0.5 \<and>
   count_nodes (branch (forest (rebuildForest 1 sketch0) ! 0)) = 1023"
  using rebuild_other_modes [of 0 sketch0] rebuild_other_modes [of "- 1" sketch0]
        rebuild_other_modes [of 1 sketch0]
  by auto

text \<open>
  C2 (as stated, refuted). The claim is that raw mood values are clamped before
  use, so that the smoothed mood never leaves \<open>[-1, 1]\<close>. \<^verbatim>\<open>p.draw\<close> interpolates
  toward \<^verbatim>\<open>state.mood\<close> as read: from a smoothed mood of 0, one tick with raw mood
  20 gives 2.
\<close>

theorem raw_mood_not_clamped: "\<not> (currentMood (draw (tick0\<lparr>mood := 20\<rparr>) sketch0) \<le> 1)"
  by (simp add: draw_currentMood lerp_def sketch0_def)

text \<open>
  C2 (amended). On finite values (the numbers of the model are reals), the tick
  uses the raw mood and wind as read, without clamping: whatever the raw values
  are, the smoothed mood after the tick is the interpolation from the current
  smoothed mood toward the raw mood with coefficient 0.1 or 0.03, and the
  smoothed wind the interpolation toward the raw wind with 0.12. So the smoothed
  mood lies in \<open>[-1, 1]\<close> after the tick when the raw mood and the current smoothed
  mood do, and likewise the wind. The drawing of the tick starts with the
  background tint, whose alpha is computed from the smoothed mood as it is; every
  bloom value in the drawing, of a segment or of a foliage call, is the smoothed
  mood constrained to \<open>[0, 1]\<close>, and there is one as soon as the forest is not
  empty.
\<close>

theorem raw_signals_used_as_read:
  "currentMood (draw tk st) =
     lerp (currentMood st) (mood tk) (if mood tk \<ge> currentMood st then 0.1 else 0.03) \<and>
   currentWind (draw tk st) = lerp (currentWind st) (windForce tk) 0.12 \<and>
   (- 1 \<le> mood tk \<longrightarrow> mood tk \<le> 1 \<longrightarrow> - 1 \<le> currentMood st \<longrightarrow> currentMood st \<le> 1 \<longrightarrow>
      - 1 \<le> currentMood (draw tk st) \<and> currentMood (draw tk st) \<le> 1) \<and>
   (- 1 \<le> windForce tk \<longrightarrow> windForce tk \<le> 1 \<longrightarrow> - 1 \<le> currentWind st \<longrightarrow> currentWind st \<le> 1 \<longrightarrow>
      - 1 \<le> currentWind (draw tk st) \<and> currentWind (draw tk st) \<le> 1) \<and>
   take 4 (canvas (draw tk st)) =
     [Clear, Push,
      FillRect (if currentMood (draw tk st) > 0
                then RGBA 255 230 200 (currentMood (draw tk st) * 20)
                else RGBA 5 5 15 (\<bar>currentMood (draw tk st)\<bar> * 180))
        (width st) (height st),
      Pop] \<and>
   set (bloomsDrawn (canvas (draw tk st))) =
     (if forest (draw tk st) = [] then {} else {constrain (currentMood (draw tk st)) 0 1}) \<and>
   0 \<le> constrain (currentMood (draw tk st)) 0 1 \<and> constrain (currentMood (draw tk st)) 0 1 \<le> 1"
proof -
  have m: "- 1 \<le> currentMood (draw tk st) \<and> currentMood (draw tk st) \<le> 1"
    if "- 1 \<le> mood tk" "mood tk \<le> 1" "- 1 \<le> currentMood st" "currentMood st \<le> 1"
    using that lerp_range[of "- 1" "currentMood st" 1 "mood tk" "0.1"]
      lerp_range[of "- 1" "currentMood st" 1 "mood tk" "0.03"]
    by (simp add: draw_currentMood)
  have w: "- 1 \<le> currentWind (draw tk st) \<and> currentWind (draw tk st) \<le> 1"
    if "- 1 \<le> windForce tk" "windForce tk \<le> 1" "- 1 \<le> currentWind st" "currentWind st \<le> 1"
    using that lerp_range[of "- 1" "currentWind st" 1 "windForce tk" "0.12"]
    by (simp add: draw_currentWind)
  have r: "currentMood (draw tk st) =
     lerp (currentMood st) (mood tk) (if mood tk \<ge> currentMood st then 0.1 else 0.03)"
    by (simp add: draw_currentMood)
  obtain rest where c: "canvas (draw tk st) =
      [Clear, Push,
       FillRect (if currentMood (draw tk st) > 0
                 then RGBA 255 230 200 (currentMood (draw tk st) * 20)
                 else RGBA 5 5 15 (\<bar>currentMood (draw tk st)\<bar> * 180))
         (width st) (height st),
       Pop] @ rest"
     and b: "set (bloomsDrawn rest) =
        (if forest (draw tk st) = [] then {} else {constrain (currentMood (draw tk st)) 0 1})"
    using draw_canvas[of tk st] by blast
  have t: "take 4 (canvas (draw tk st)) =
     [Clear, Push,
      FillRect (if currentMood (draw tk st) > 0
                then RGBA 255 230 200 (currentMood (draw tk st) * 20)
                else RGBA 5 5 15 (\<bar>currentMood (draw tk st)\<bar> * 180))
        (width st) (height st),
      Pop]"
    by (subst c) simp
  have s: "set (bloomsDrawn (canvas (draw tk st))) =
     (if forest (draw tk st) = [] then {} else {constrain (currentMood (draw tk st)) 0 1})"
    by (subst c) (simp add: b)
  have k: "0 \<le> constrain (currentMood (draw tk st)) 0 1 \<and> constrain (currentMood (draw tk st)) 0 1 \<le> 1"
    by (simp add: constrain_def)
  show ?thesis using m w r draw_currentWind[of tk st] t s k by blast
qed


theorem raw_signals_used_as_read_witness:
  "currentMood (draw (tick0\<lparr>mood := 20\<rparr>) treeSketch0) = 2 \<and>
   take 4 (canvas (draw (tick0\<lparr>mood := 20\<rparr>) treeSketch0)) =
     [Clear, Push, FillRect (RGBA 255 230 200 40) 800 600, Pop] \<and>
   set (bloomsDrawn (canvas (draw (tick0\<lparr>mood := 20\<rparr>) treeSketch0))) = {1} \<and>
   - 1 \<le> currentMood (draw (tick0\<lparr>mood := 1\<rparr>) treeSketch0) \<and>
   currentMood (draw (tick0\<lparr>mood := 1\<rparr>) treeSketch0) \<le> 1"
  using raw_signals_used_as_read [of "tick0\<lparr>mood := 20\<rparr>" treeSketch0]
        raw_signals_used_as_read [of "tick0\<lparr>mood := 1\<rparr>" treeSketch0]
  by (simp add: draw_forest_same treeSketch0_def sketch0_def tick0_def lerp_def constrain_def)

text \<open>
  C6. A rebuild with scene mode 3 produces exactly 10 tree instances. The tree at
  index \<open>i\<close> has \<open>xRatio = 0.05 + 0.9 * i / 9\<close>, the seed \<open>5555 + i * 937\<close>, a scale that
  is the first draw of \<^verbatim>\<open>random(0.30, 0.42)\<close> after seeding the stream with that seed,
  hence within \<open>[0.30, 0.42]\<close>, and the skeleton built with depth limit 7 from
  that seed.
\<close>

theorem forest_mode_three:
  "i < 10 \<Longrightarrow>
     length (forest (rebuildForest 3 st)) = 10 \<and>
     xRatio (forest (rebuildForest 3 st) ! i) = 0.05 + 0.9 * real i / 9 \<and>
     seed (forest (rebuildForest 3 st) ! i) = 5555 + int i * 937 \<and>
     scale (forest (rebuildForest 3 st) ! i) =
       fst (random2 0.30 0.42 (randomSeed (5555 + int i * 937))) \<and>
     0.30 \<le> scale (forest (rebuildForest 3 st) ! i) \<and>
     scale (forest (rebuildForest 3 st) ! i) \<le> 0.42 \<and>
     branch (forest (rebuildForest 3 st) ! i) = fst (buildTreeSkeleton 7 (5555 + int i * 937) st)"
proof -
  assume i: "i < 10"
  have f: "forest (rebuildForest 3 st) ! i = mkTree (width st) (height st) i"
    using i by (simp add: rebuildForest_other)
  have r: "0.30 \<le> fst (random2 0.30 0.42 (randomSeed (5555 + int i * 937))) \<and>
           fst (random2 0.30 0.42 (randomSeed (5555 + int i * 937))) \<le> 0.42"
    by (rule random2_range) simp
  show ?thesis
    unfolding f using r by (simp add: rebuildForest_other buildTreeSkeleton_fst)
qed

theorem forest_mode_three_witness:
  "length (forest (rebuildForest 3 sketch0)) = 10 \<and>
   xRatio (forest (rebuildForest 3 sketch0) ! 0) = 0.05 \<and>
   xRatio (forest (rebuildForest 3 sketch0) ! 9) = 0.95 \<and>
   seed (forest (rebuildForest 3 sketch0) ! 9) = 13988 \<and>
   0.30 \<le> scale (forest (rebuildForest 3 sketch0) ! 9) \<and>
   scale (forest (rebuildForest 3 sketch0) ! 9) \<le> 0.42"
  using forest_mode_three [of 0 sketch0] forest_mode_three [of 9 sketch0]
  by simp


text \<open>
  C10. A spawn request left of \<open>-50\<close>, right of the canvas width plus 50, or below
  the canvas bottom returns the state as it is: no particle is created, nothing
  is drawn from the random stream, and the particle collection is unchanged.
\<close>

theorem spawn_outside_ignored:
  "x < - 50 \<or> x > width st + 50 \<or> y > height st \<Longrightarrow>
     spawnFallingParticle x y sc st = st \<and>
     particles (spawnFallingParticle x y sc st) = particles st"
  by (simp add: spawnFallingParticle_def)

theorem spawn_outside_ignored_witness:
  "spawnFallingParticle (- 51) 0 1 sketch0 = sketch0 \<and>
   spawnFallingParticle 851 0 1 sketch0 = sketch0 \<and>
   spawnFallingParticle 400 601 1 sketch0 = sketch0 \<and>
   particles (spawnFallingParticle 400 601 1 sketch0) = []"
  using spawn_outside_ignored [of "- 51" sketch0 0 1]
        spawn_outside_ignored [of 851 sketch0 0 1]
        spawn_outside_ignored [of 400 sketch0 601 1]
  by (simp add: sketch0_def)



text \<open>
  C7 (as stated, refuted). The claim is that every live particle is removed
  exactly when its life is at most 0 or it has fallen below the canvas height
  plus 100. With 401 particles at the start of the tick, the oldest one is
  discarded by the trim: its update would have life 98 and stay inside the
  canvas, and yet it is not in the collection after the tick.
\<close>

theorem trimmed_particle_removed_alive:
  "life (integrate tick0 0 (particle0\<lparr>life := 100\<rparr>)) > 0 \<and>
   snd (pos (integrate tick0 0 (particle0\<lparr>life := 100\<rparr>))) \<le> height sketch0 + 100 \<and>
   particle0\<lparr>life := 100\<rparr> \<in> set (particles
      (sketch0\<lparr>particles := particle0\<lparr>life := 100\<rparr> # replicate 400 particle0\<rparr>)) \<and>
   integrate tick0 0 (particle0\<lparr>life := 100\<rparr>) \<notin> set (particles
      (updateParticles tick0 0 peach
         (sketch0\<lparr>particles := particle0\<lparr>life := 100\<rparr> # replicate 400 particle0\<rparr>)))"
proof -
  have l: "life (integrate tick0 0 (particle0\<lparr>life := 100\<rparr>)) = 98"
    by (simp add: integrate_life)
  have l0: "life (integrate tick0 0 particle0) = 253"
    by (simp add: integrate_life particle0_def)
  have y: "snd (pos (integrate tick0 0 (particle0\<lparr>life := 100\<rparr>))) \<le> height sketch0 + 100"
    by (simp add: integrate_def Let_def particle0_def tick0_def sketch0_def)
  have ne: "integrate tick0 0 (particle0\<lparr>life := 100\<rparr>) \<noteq> integrate tick0 0 particle0"
    using l l0 by auto
  have "set (particles (updateParticles tick0 0 peach
         (sketch0\<lparr>particles := particle0\<lparr>life := 100\<rparr> # replicate 400 particle0\<rparr>)))
        \<subseteq> {integrate tick0 0 particle0}"
    by (auto simp add: updateParticles_particles MAX_PARTICLES_def)
  with ne l y show ?thesis by auto
qed


text \<open>
  C7 (amended). For every particle the integration loop visits in a tick (all
  particles when at most \<open>MAX_PARTICLES\<close> are live at the start of the tick,
  otherwise the newest \<open>MAX_PARTICLES\<close>), life decreases by exactly 2, and the
  particle is removed exactly when, after the update, its life is at most 0 or
  its vertical position exceeds the canvas height plus 100: the collection after
  the tick is the list of the updated particles that fail that test, in order.
\<close>

theorem particle_lifecycle:
  "life (integrate tk w p) = life p - 2 \<and>
   life (integrate tk w p) < life p \<and>
   particles (updateParticles tk w sty st) =
     filter (\<lambda>q. \<not> (life q \<le> 0 \<or> snd (pos q) > height st + 100))
       (map (integrate tk w) (drop (length (particles st) - MAX_PARTICLES) (particles st))) \<and>
   (length (particles st) \<le> MAX_PARTICLES \<longrightarrow>
      particles (updateParticles tk w sty st) =
        filter (\<lambda>q. \<not> (life q \<le> 0 \<or> snd (pos q) > height st + 100))
          (map (integrate tk w) (particles st)))"
proof -
  have e: "(\<lambda>q. \<not> (life q \<le> 0 \<or> snd (pos q) > height st + 100)) = (\<lambda>q. \<not> expired st q)"
    by (simp add: expired_def fun_eq_iff)
  show ?thesis
    unfolding e by (simp add: integrate_life updateParticles_particles)
qed

theorem particle_lifecycle_witness:
  "particles (updateParticles tick0 0 peach
      (sketch0\<lparr>particles := [particle0\<lparr>life := 2\<rparr>,
                               particle0,
                               particle0\<lparr>pos := (400, 700), vel := (0, 10)\<rparr>]\<rparr>))
     = [integrate tick0 0 particle0] \<and>
   life (integrate tick0 0 particle0) = 253"
  using particle_lifecycle [of tick0 0 particle0 peach
      "sketch0\<lparr>particles := [particle0\<lparr>life := 2\<rparr>, particle0,
                               particle0\<lparr>pos := (400, 700), vel := (0, 10)\<rparr>]\<rparr>"]
  by (simp add: MAX_PARTICLES_def sketch0_def particle0_def tick0_def integrate_def Let_def)

text \<open>
  C8. After a tick of the particle system, and so after every tick of the sketch,
  the collection holds at most \<open>MAX_PARTICLES = 400\<close> particles. A spawn appends
  at the end, so the front of the collection is its oldest part. The tick is the
  integration loop run on the collection without its first \<open>length - 400\<close>
  elements, and what it leaves is the list of the updates of exactly those newest
  particles that pass the removal test, in order: when more than 400 particles
  are present at the start of a tick, the excess is discarded oldest first,
  before any particle is integrated, and the newest 400 are integrated.
\<close>

theorem particle_cap:
  "MAX_PARTICLES = 400 \<and>
   length (particles (updateParticles tk w sty st)) \<le> 400 \<and>
   length (particles (draw tk st)) \<le> 400 \<and>
   (particles (spawnFallingParticle x y sc st) = particles st \<or>
    (\<exists>p. particles (spawnFallingParticle x y sc st) = particles st @ [p])) \<and>
   updateParticles tk w sty st =
     particleLoop tk w sty (length (drop (length (particles st) - 400) (particles st)))
       (st\<lparr>particles := drop (length (particles st) - 400) (particles st)\<rparr>) \<and>
   particles (updateParticles tk w sty st) =
     filter (\<lambda>q. \<not> (life q \<le> 0 \<or> snd (pos q) > height st + 100))
       (map (integrate tk w) (drop (length (particles st) - 400) (particles st))) \<and>
   (length (particles st) > 400 \<longrightarrow>
      length (drop (length (particles st) - 400) (particles st)) = 400 \<and>
      updateParticles tk w sty st =
        updateParticles tk w sty
          (st\<lparr>particles := drop (length (particles st) - 400) (particles st)\<rparr>))"
proof -
  have m: "MAX_PARTICLES = 400" by (simp add: MAX_PARTICLES_def)
  have a: "length (particles (updateParticles tk w sty st)) \<le> 400"
    using updateParticles_length[of tk w sty st] by (simp add: m)
  have b: "length (particles (draw tk st)) \<le> 400"
    using draw_particles_length[of tk st] by (simp add: m)
  have c: "particles (spawnFallingParticle x y sc st) = particles st \<or>
    (\<exists>p. particles (spawnFallingParticle x y sc st) = particles st @ [p])"
    using spawn_appends[of x y sc st] by blast
  have d: "length (drop (length (particles st) - 400) (particles st)) = 400 \<and>
      updateParticles tk w sty st =
        updateParticles tk w sty
          (st\<lparr>particles := drop (length (particles st) - 400) (particles st)\<rparr>)"
    if "length (particles st) > 400"
    using that by (simp add: updateParticles_def Let_def m)
  have e: "updateParticles tk w sty st =
     particleLoop tk w sty (length (drop (length (particles st) - 400) (particles st)))
       (st\<lparr>particles := drop (length (particles st) - 400) (particles st)\<rparr>)"
    using updateParticles_trim[of tk w sty st] by (simp add: m)
  have f: "particles (updateParticles tk w sty st) =
     filter (\<lambda>q. \<not> (life q \<le> 0 \<or> snd (pos q) > height st + 100))
       (map (integrate tk w) (drop (length (particles st) - 400) (particles st)))"
    using updateParticles_particles[of tk w sty st] by (simp add: m expired_def)
  show ?thesis using m a b c d e f by blast
qed

theorem particle_cap_witness:
  "length (particles (updateParticles tick0 0 peach
      (sketch0\<lparr>particles := particle0\<lparr>life := 100\<rparr> # replicate 400 particle0\<rparr>))) \<le> 400 \<and>
   particles (updateParticles tick0 0 peach
      (sketch0\<lparr>particles := particle0\<lparr>life := 100\<rparr> # replicate 400 particle0\<rparr>))
     = replicate 400 (integrate tick0 0 particle0) \<and>
   updateParticles tick0 0 peach
      (sketch0\<lparr>particles := particle0\<lparr>life := 100\<rparr> # replicate 400 particle0\<rparr>)
     = updateParticles tick0 0 peach (sketch0\<lparr>particles := replicate 400 particle0\<rparr>)"
proof -
  note t = particle_cap [where tk = tick0 and w = 0 and sty = peach and x = 0 and y = 0 and sc = 1
      and st = "sketch0\<lparr>particles := particle0\<lparr>life := 100\<rparr> # replicate 400 particle0\<rparr>"]
  have e1: "length (particles (updateParticles tick0 0 peach
      (sketch0\<lparr>particles := particle0\<lparr>life := 100\<rparr> # replicate 400 particle0\<rparr>))) \<le> 400"
    using t by blast
  have alive: "\<not> (life (integrate tick0 0 particle0) \<le> 0 \<or>
                  snd (pos (integrate tick0 0 particle0)) > 600 + 100)"
    by (simp add: integrate_def Let_def particle0_def tick0_def)
  have e2: "particles (updateParticles tick0 0 peach
      (sketch0\<lparr>particles := particle0\<lparr>life := 100\<rparr> # replicate 400 particle0\<rparr>))
     = replicate 400 (integrate tick0 0 particle0)"
    apply (subst t[THEN conjunct2, THEN conjunct2, THEN conjunct2, THEN conjunct2, THEN conjunct2, THEN conjunct1])
    using alive by (simp add: sketch0_def)
  have e3: "updateParticles tick0 0 peach
      (sketch0\<lparr>particles := particle0\<lparr>life := 100\<rparr> # replicate 400 particle0\<rparr>)
     = updateParticles tick0 0 peach (sketch0\<lparr>particles := replicate 400 particle0\<rparr>)"
    using t[THEN conjunct2, THEN conjunct2, THEN conjunct2, THEN conjunct2, THEN conjunct2, THEN conjunct2]
    by simp
  show ?thesis using e1 e2 e3 by blast
qed

text \<open>
  C4 (as stated, refuted). The claim is that every near-terminal branch of the
  tree has foliage attached if and only if the mood constrained to \<open>[0, 1]\<close>
  exceeds its threshold. \<^verbatim>\<open>renderBranch\<close> returns before its loop over the children
  when \<^verbatim>\<open>len < 4\<close>: below a branch of depth 8 rendered with length 3, the twig of
  depth 9 with threshold 0.1 is never rendered, and at mood 0.5 the drawing has no
  foliage at all.
\<close>

theorem unreached_twig_without_foliage:
  "Branch 0 0 9 (- 0.6) [] 0.1 True 0.7 \<in> set (children stub0) \<and>
   real (depth (Branch 0 0 9 (- 0.6) [] 0.1 True 0.7))
     > renderMaxDepth (sketch0\<lparr>currentMood := 0.5\<rparr>) - 4 \<and>
   constrain (currentMood (sketch0\<lparr>currentMood := 0.5\<rparr>)) 0 1
     > noiseThreshold (Branch 0 0 9 (- 0.6) [] 0.1 True 0.7) \<and>
   filter isFoliage
     (canvas (renderBranch tick0 stub0 3 1 0 400 300 0 peach 1 (sketch0\<lparr>currentMood := 0.5\<rparr>))) = []"
  by (simp add: stub0_def sketch0_def renderBranch.simps Let_def renderNode_canvas
        renderMaxDepth_def bloomFactor_constrain constrain_def)

text \<open>
  C4 (amended). The claim holds for the branches the recursion reaches: the
  branch rendering starts from, and the children of a reached branch whose depth
  is below \<open>maxDepth\<close> and whose rendered length is at least 4. The foliage calls
  that rendering a tree adds to the drawing are, in order, one call for every
  reached branch with \<^verbatim>\<open>branch.depth > maxDepth - 4\<close> whose threshold is below the
  smoothed mood constrained to \<open>[0, 1]\<close>, and no other; for such a branch the call
  follows the branch's own segment. Consequently the number of foliage calls that
  rendering a fixed tree at a fixed length adds does not decrease when the
  smoothed mood rises, whatever the wind, the clock and the position are in the
  two renderings.
\<close>

theorem foliage_on_reached_branches:
  "filter isFoliage (canvas (renderBranch tk b blen bthick w x y ca sty sc st)) =
     filter isFoliage (canvas st) @
       map (\<lambda>c. AttachedFoliage w (hasFlower c) (constrain (currentMood st) 0 1) sty sc)
         (filter (\<lambda>c. real (depth c) > renderMaxDepth st - 4 \<and>
                        constrain (currentMood st) 0 1 > noiseThreshold c)
            (reached (renderMaxDepth st) b blen)) \<and>
   reached M b blen =
     b # (if real (depth b) \<ge> M \<or> blen < 4 then []
          else concat (map (\<lambda>c. reached M c (blen * lenMult c)) (children b))) \<and>
   (real (depth b) > renderMaxDepth st - 4 \<longrightarrow>
      (\<exists>rest. canvas (renderBranch tk b blen bthick w x y ca sty sc st) =
          canvas st @ [Segment bthick blen (bloomFactor st), Translate 0 (- blen)] @
            (if constrain (currentMood st) 0 1 > noiseThreshold b
             then [AttachedFoliage w (hasFlower b) (constrain (currentMood st) 0 1) sty sc]
             else []) @ rest \<and>
          (rest = [] \<or> hd rest = Push))) \<and>
   (currentSceneMode s1 = currentSceneMode s2 \<longrightarrow> currentMood s1 \<le> currentMood s2 \<longrightarrow>
      foliageCount (canvas (renderBranch tk1 b blen bthick1 w1 x1 y1 ca1 sty1 sc1 s1))
          - foliageCount (canvas s1)
        \<le> foliageCount (canvas (renderBranch tk2 b blen bthick2 w2 x2 y2 ca2 sty2 sc2 s2))
          - foliageCount (canvas s2))"
proof -
  have p0: "filter isFoliage (canvas (renderBranch tk b blen bthick w x y ca sty sc st)) =
     filter isFoliage (canvas st) @
       map (\<lambda>c. AttachedFoliage w (hasFlower c) (constrain (currentMood st) 0 1) sty sc)
         (filter (\<lambda>c. real (depth c) > renderMaxDepth st - 4 \<and>
                        constrain (currentMood st) 0 1 > noiseThreshold c)
            (reached (renderMaxDepth st) b blen))"
    using render_foliage_ops(1)[of tk b blen bthick w x y ca sty sc st]
    by (simp add: foliageOf_def bloomFactor_constrain)
  have p1: "\<exists>rest. canvas (renderBranch tk b blen bthick w x y ca sty sc st) =
          canvas st @ [Segment bthick blen (bloomFactor st), Translate 0 (- blen)] @
            (if constrain (currentMood st) 0 1 > noiseThreshold b
             then [AttachedFoliage w (hasFlower b) (constrain (currentMood st) 0 1) sty sc]
             else []) @ rest \<and>
          (rest = [] \<or> hd rest = Push)"
    if near: "real (depth b) > renderMaxDepth st - 4"
  proof (cases "real (depth b) \<ge> renderMaxDepth st \<or> blen < 4")
    case True
    then show ?thesis
      using near by (simp add: renderBranch_unfold Let_def renderNode_canvas bloomFactor_constrain)
  next
    case False
    let ?st1 = "renderNode tk (depth b) (noiseThreshold b) (hasFlower b) blen bthick w
                  (x + sin ca * blen) (y - cos ca * blen) sty sc st"
    obtain rest where r: "canvas (renderChildren tk (children b) blen bthick w
                (w * flexibility (renderMaxDepth st) (depth b)) (x + sin ca * blen) (y - cos ca * blen)
                ca sty sc ?st1) = canvas ?st1 @ rest" "rest = [] \<or> hd rest = Push"
      using render_canvas_grows(2)[of tk "children b" blen bthick w _ _ _ ca sty sc ?st1] by blast
    have "canvas (renderBranch tk b blen bthick w x y ca sty sc st) = canvas ?st1 @ rest"
      using False r(1) by (simp add: renderBranch_unfold Let_def)
    then show ?thesis
      using near r(2)
      by (intro exI[of _ rest]) (simp add: renderNode_canvas bloomFactor_constrain)
  qed
  have p2: "foliageCount (canvas (renderBranch tk1 b blen bthick1 w1 x1 y1 ca1 sty1 sc1 s1))
          - foliageCount (canvas s1)
        \<le> foliageCount (canvas (renderBranch tk2 b blen bthick2 w2 x2 y2 ca2 sty2 sc2 s2))
          - foliageCount (canvas s2)"
    if "currentSceneMode s1 = currentSceneMode s2" "currentMood s1 \<le> currentMood s2"
  proof -
    have m: "renderMaxDepth s1 = renderMaxDepth s2" using that(1) by (simp add: renderMaxDepth_def)
    show ?thesis
      using attachedBranches_mono[OF bloomFactor_mono[OF that(2)], of "renderMaxDepth s2" b blen]
      by (simp add: render_foliageCount m)
  qed
  show ?thesis using p0 p1 p2 reached_unfold[of M b blen] by blast
qed

theorem foliage_on_reached_branches_witness:
  "filter isFoliage
     (canvas (renderBranch tick0 stub0 10 1 0 400 300 0 peach 1 (sketch0\<lparr>currentMood := 0.5\<rparr>)))
     = [AttachedFoliage 0 True 0.5 peach 1, AttachedFoliage 0 False 0.5 peach 1] \<and>
   filter isFoliage
     (canvas (renderBranch tick0 stub0 3 1 0 400 300 0 peach 1 (sketch0\<lparr>currentMood := 0.5\<rparr>)))
     = [] \<and>
   foliageCount (canvas (renderBranch tick0 stub0 10 1 0 400 300 0 peach 1 (sketch0\<lparr>currentMood := 0.05\<rparr>)))
       - foliageCount (canvas (sketch0\<lparr>currentMood := 0.05\<rparr>))
     \<le> foliageCount (canvas (renderBranch tick0 stub0 10 1 0 400 300 0 peach 1 (sketch0\<lparr>currentMood := 0.5\<rparr>)))
       - foliageCount (canvas (sketch0\<lparr>currentMood := 0.5\<rparr>))"
proof -
  note long = foliage_on_reached_branches [where b = stub0 and st = "sketch0\<lparr>currentMood := 0.5\<rparr>"
      and ?s1.0 = "sketch0\<lparr>currentMood := 0.05\<rparr>" and ?s2.0 = "sketch0\<lparr>currentMood := 0.5\<rparr>"
      and tk = tick0 and ?tk1.0 = tick0 and ?tk2.0 = tick0 and blen = 10
      and bthick = 1 and ?bthick1.0 = 1 and ?bthick2.0 = 1 and w = 0 and ?w1.0 = 0 and ?w2.0 = 0
      and x = 400 and ?x1.0 = 400 and ?x2.0 = 400 and y = 300 and ?y1.0 = 300 and ?y2.0 = 300
      and ca = 0 and ?ca1.0 = 0 and ?ca2.0 = 0 and sty = peach and ?sty1.0 = peach and ?sty2.0 = peach
      and sc = 1 and ?sc1.0 = 1 and ?sc2.0 = 1 and M = 9]
  note short = foliage_on_reached_branches [where b = stub0 and st = "sketch0\<lparr>currentMood := 0.5\<rparr>"
      and ?s1.0 = "sketch0\<lparr>currentMood := 0.05\<rparr>" and ?s2.0 = "sketch0\<lparr>currentMood := 0.5\<rparr>"
      and tk = tick0 and ?tk1.0 = tick0 and ?tk2.0 = tick0 and blen = 3
      and bthick = 1 and ?bthick1.0 = 1 and ?bthick2.0 = 1 and w = 0 and ?w1.0 = 0 and ?w2.0 = 0
      and x = 400 and ?x1.0 = 400 and ?x2.0 = 400 and y = 300 and ?y1.0 = 300 and ?y2.0 = 300
      and ca = 0 and ?ca1.0 = 0 and ?ca2.0 = 0 and sty = peach and ?sty1.0 = peach and ?sty2.0 = peach
      and sc = 1 and ?sc1.0 = 1 and ?sc2.0 = 1 and M = 9]
  have e1: "filter isFoliage
     (canvas (renderBranch tick0 stub0 10 1 0 400 300 0 peach 1 (sketch0\<lparr>currentMood := 0.5\<rparr>)))
     = [AttachedFoliage 0 True 0.5 peach 1, AttachedFoliage 0 False 0.5 peach 1]"
    by (subst long[THEN conjunct1])
       (simp add: stub0_def sketch0_def reached.simps renderMaxDepth_def constrain_def)
  have e2: "filter isFoliage
     (canvas (renderBranch tick0 stub0 3 1 0 400 300 0 peach 1 (sketch0\<lparr>currentMood := 0.5\<rparr>)))
     = []"
    by (subst short[THEN conjunct1])
       (simp add: stub0_def sketch0_def reached.simps renderMaxDepth_def constrain_def)
  have e3: "foliageCount (canvas (renderBranch tick0 stub0 10 1 0 400 300 0 peach 1 (sketch0\<lparr>currentMood := 0.05\<rparr>)))
       - foliageCount (canvas (sketch0\<lparr>currentMood := 0.05\<rparr>))
     \<le> foliageCount (canvas (renderBranch tick0 stub0 10 1 0 400 300 0 peach 1 (sketch0\<lparr>currentMood := 0.5\<rparr>)))
       - foliageCount (canvas (sketch0\<lparr>currentMood := 0.5\<rparr>))"
    using long[THEN conjunct2, THEN conjunct2, THEN conjunct2] by simp
  show ?thesis using e1 e2 e3 by blast
qed

text \<open>
  C9. When \<^verbatim>\<open>renderBranch\<close> recurses, every child, at any position in
  \<^verbatim>\<open>branch.children\<close>, is rendered right after a rotation by
  \<open>child.angleOffset + windAngle * flexibility maxDepth (depth of the parent)\<close>, with
  the cumulative angle advanced by the same amount. \<open>flexibility\<close> is the linear
  interpolation \<open>0.05 + (1.3 - 0.05) * depth / maxDepth\<close>: 0.05 at depth 0, 1.3 at
  \<open>maxDepth\<close>, strictly increasing in the depth; \<open>maxDepth\<close> is 7, 8 or 9.
\<close>

theorem child_rotation:
  "(\<not> (real (depth b) \<ge> renderMaxDepth st \<or> blen < 4) \<longrightarrow> children b = pre @ child # post \<longrightarrow>
      renderBranch tk b blen bthick w x y ca sty sc st =
        (let tipX = x + sin ca * blen;
             tipY = y - cos ca * blen;
             localWind = w * flexibility (renderMaxDepth st) (depth b);
             nextAngle = angleOffset child + localWind;
             st1 = renderChildren tk pre blen bthick w localWind tipX tipY ca sty sc
                     (renderNode tk (depth b) (noiseThreshold b) (hasFlower b) blen bthick w
                        tipX tipY sty sc st);
             st2 = renderBranch tk child (blen * lenMult child) (bthick * 0.7) w tipX tipY
                     (ca + nextAngle) sty sc (emit [Push, Rotate nextAngle] st1)
         in renderChildren tk post blen bthick w localWind tipX tipY ca sty sc (emit [Pop] st2))) \<and>
   flexibility M d = 0.05 + (1.3 - 0.05) * (real d / M) \<and>
   flexibility M 0 = 0.05 \<and>
   (0 < M \<longrightarrow> real d = M \<longrightarrow> flexibility M d = 1.3) \<and>
   (0 < M \<longrightarrow> d1 < d2 \<longrightarrow> flexibility M d1 < flexibility M d2) \<and>
   renderMaxDepth st \<in> {7, 8, 9}"
proof -
  have r: "renderBranch tk b blen bthick w x y ca sty sc st =
        (let tipX = x + sin ca * blen;
             tipY = y - cos ca * blen;
             localWind = w * flexibility (renderMaxDepth st) (depth b);
             nextAngle = angleOffset child + localWind;
             st1 = renderChildren tk pre blen bthick w localWind tipX tipY ca sty sc
                     (renderNode tk (depth b) (noiseThreshold b) (hasFlower b) blen bthick w
                        tipX tipY sty sc st);
             st2 = renderBranch tk child (blen * lenMult child) (bthick * 0.7) w tipX tipY
                     (ca + nextAngle) sty sc (emit [Push, Rotate nextAngle] st1)
         in renderChildren tk post blen bthick w localWind tipX tipY ca sty sc (emit [Pop] st2))"
    if "\<not> (real (depth b) \<ge> renderMaxDepth st \<or> blen < 4)" "children b = pre @ child # post"
    using that by (simp add: renderBranch_unfold renderChildren_append Let_def)
  have f1: "flexibility M 0 = 0.05" by (simp add: flexibility_eq)
  have f2: "flexibility M d = 1.3" if "0 < M" "real d = M"
    using that by (simp add: flexibility_eq)
  have f3: "flexibility M d1 < flexibility M d2" if "0 < M" "d1 < d2"
    using that by (simp add: flexibility_eq divide_strict_right_mono)
  show ?thesis using r f1 f2 f3 flexibility_eq[of M d] renderMaxDepth_cases[of st] by blast
qed

theorem child_rotation_witness:
  "canvas (renderBranch tick0 fork0 100 10 0.2 400 600 0 peach 1 sketch0) =
     [Segment 10 100 0, Translate 0 (- 100),
      Push, Rotate (- 0.6 + 0.2 * 0.05), Segment 7 70 0, Translate 0 (- 70), Pop,
      Push, Rotate (0.6 + 0.2 * 0.05), Segment 7 75 0, Translate 0 (- 75), Pop] \<and>
   flexibility 9 0 = 0.05 \<and> flexibility 9 9 = 1.3 \<and> flexibility 9 3 < flexibility 9 4"
  using child_rotation [where b = fork0 and st = sketch0 and blen = 100 and pre = "[]"
      and child = "Branch 0 0 1 (- 0.6) [] 0.5 True 0.7" and post = "[Branch 0 0 1 0.6 [] 0.4 False 0.75]"
      and tk = tick0 and bthick = 10 and w = "0.2" and x = 400 and y = 600 and ca = 0 and sty = peach
      and sc = 1 and M = 9 and d = 9 and ?d1.0 = 3 and ?d2.0 = 4]
  by (simp add: fork0_def sketch0_def renderBranch.simps Let_def renderNode_canvas
        renderMaxDepth_def bloomFactor_constrain constrain_def flexibility_eq)


end
